theory Spec2Isabelle
  imports Main
begin

section \<open>Strings, integers and errors as the Go code uses them\<close>

text \<open>
  Go strings are byte sequences; they are modelled as \<open>string\<close> (a list of 8-bit
  characters). The helpers below follow the functions of Go's \<open>strings\<close> package that
  the repository calls, on ASCII text.
\<close>

definition strings_HasPrefix :: "string \<Rightarrow> string \<Rightarrow> bool" where
  "strings_HasPrefix s p = (take (length p) s = p)"

definition strings_HasSuffix :: "string \<Rightarrow> string \<Rightarrow> bool" where
  "strings_HasSuffix s p = (length p \<le> length s \<and> drop (length s - length p) s = p)"

fun strings_Contains :: "string \<Rightarrow> string \<Rightarrow> bool" where
  "strings_Contains [] sub = (sub = [])"
| "strings_Contains (c # cs) sub = (strings_HasPrefix (c # cs) sub \<or> strings_Contains cs sub)"

text \<open>\<open>%d\<close> of \<open>fmt\<close>: the decimal rendering of an integer.\<close>

definition digit_char :: "nat \<Rightarrow> char" where
  "digit_char d = char_of (48 + d)"

fun show_nat :: "nat \<Rightarrow> string" where
  "show_nat n = (if n < 10 then [digit_char n] else show_nat (n div 10) @ [digit_char (n mod 10)])"

declare show_nat.simps [simp del]

definition show_int :: "int \<Rightarrow> string" where
  "show_int i = (if i < 0 then CHR ''-'' # show_nat (nat (- i)) else show_nat (nat i))"

text \<open>
  Go errors. The sentinels are the package-level \<open>errors.New\<close> values of the packages
  \<open>token\<close> and \<open>urlutils\<close> and the two errors of \<open>context\<close>; \<open>ErrorString\<close> is an error
  made on the spot by \<open>errors.New\<close> or by \<open>fmt.Errorf\<close> without \<open>%w\<close>;
  \<open>Wrapf pre e post\<close> is \<open>fmt.Errorf\<close> with one \<open>%w\<close>, the text before it and the text
  after it; \<open>OperationError\<close> is the struct of package \<open>errors\<close> of the repository;
  \<open>ScopeError\<close> is the struct of \<open>token/detect.go\<close>, its \<open>Status\<close> map kept as an
  association list.
\<close>

datatype error =
    ErrTokenNotFound
  | ErrTokenInvalid
  | ErrTokenExpired
  | ErrStorageUnavailable
  | ErrTokenRefreshFailed
  | ErrInvalidURL
  | ErrInvalidHost
  | ErrInvalidPath
  | ErrEmptyToken
  | ErrNotHTTPS
  | DeadlineExceeded
  | Canceled
  | ErrorString string
  | Wrapf string error string
  | OperationError string "error option"
  | ScopeError "string list" "(string \<times> bool) list"

fun strings_Join :: "string list \<Rightarrow> string \<Rightarrow> string" where
  "strings_Join [] sep = []"
| "strings_Join [x] sep = x"
| "strings_Join (x # y # ys) sep = x @ sep @ strings_Join (y # ys) sep"

fun Error :: "error \<Rightarrow> string" where
  "Error ErrTokenNotFound = ''token not found''"
| "Error ErrTokenInvalid = ''token is invalid''"
| "Error ErrTokenExpired = ''token has expired''"
| "Error ErrStorageUnavailable = ''token storage is unavailable''"
| "Error ErrTokenRefreshFailed = ''token refresh failed''"
| "Error ErrInvalidURL = ''invalid URL format''"
| "Error ErrInvalidHost = ''invalid GitHub host''"
| "Error ErrInvalidPath = ''invalid repository path''"
| "Error ErrEmptyToken = ''empty token provided''"
| "Error ErrNotHTTPS = ''URL must use HTTPS protocol''"
| "Error DeadlineExceeded = ''context deadline exceeded''"
| "Error Canceled = ''context canceled''"
| "Error (ErrorString s) = s"
| "Error (Wrapf pre e post) = pre @ Error e @ post"
| "Error (OperationError opn None) = opn"
| "Error (OperationError opn (Some e)) = opn @ '': '' @ Error e"
| "Error (ScopeError missing status) = ''missing required scopes: '' @ strings_Join missing '', ''"

text \<open>
  \<open>errors.Is\<close> against a sentinel: the error itself, or an error it wraps
  (\<open>%w\<close>, or \<open>OperationError.Unwrap\<close>).
\<close>

fun errors_Is :: "error \<Rightarrow> error \<Rightarrow> bool" where
  "errors_Is (Wrapf pre e post) target = errors_Is e target"
| "errors_Is (OperationError opn None) target = False"
| "errors_Is (OperationError opn (Some e)) target = errors_Is e target"
| "errors_Is e target = (e = target)"

section \<open>Token model (package token)\<close>

text \<open>
  A \<open>time.Time\<close> is an integer count of nanoseconds from Go's zero time, so that
  \<open>IsZero\<close> is equality with 0 and \<open>After\<close> is \<open>>\<close>.
\<close>

type_synonym time = int

record Token =
  Value :: string
  ExpiresAt :: time
  Scope :: string
  CreatedAt :: time

definition zero_Token :: Token where
  "zero_Token = \<lparr>Value = [], ExpiresAt = 0, Scope = [], CreatedAt = 0\<rparr>"

definition IsValid :: "Token \<Rightarrow> bool" where
  "IsValid token = (Value token \<noteq> [])"

definition IsExpired :: "time \<Rightarrow> Token \<Rightarrow> bool" where
  "IsExpired now token = (if ExpiresAt token = 0 then False else now > ExpiresAt token)"

text \<open>\<open>NewToken\<close>; \<open>now\<close> is what its call of \<open>time.Now()\<close> returns.\<close>

definition NewToken :: "time \<Rightarrow> string \<Rightarrow> time \<Rightarrow> string \<Rightarrow> error + Token" where
  "NewToken now value expiresAt scope =
     (if value = [] then Inl (ErrorString ''token value cannot be empty'')
      else let token = \<lparr>Value = value, ExpiresAt = expiresAt, Scope = scope, CreatedAt = now\<rparr>
           in if \<not> IsValid token then Inl ErrTokenInvalid else Inr token)"

text \<open>
  A test that brackets \<open>NewToken\<close> between two clock readings: \<open>clock n\<close> is the
  \<open>n\<close>-th reading of \<open>time.Now()\<close> in program order.
\<close>

definition NewToken_bracketed ::
  "(nat \<Rightarrow> time) \<Rightarrow> string \<Rightarrow> time \<Rightarrow> string \<Rightarrow> time \<times> (error + Token) \<times> time" where
  "NewToken_bracketed clock value expiresAt scope =
     (clock 0, NewToken (clock 1) value expiresAt scope, clock 2)"


section \<open>Storage backends\<close>

subsection \<open>Environment-backed storage (token/env.go)\<close>

text \<open>
  The process environment is a map from variable names to values; \<open>os.Getenv\<close> gives
  the empty string for an unset variable. \<open>json.Unmarshal\<close> and \<open>json.Marshal\<close> belong
  to Go's library and are parameters of the model.
\<close>

type_synonym environ = "string \<rightharpoonup> string"

definition os_Getenv :: "environ \<Rightarrow> string \<Rightarrow> string" where
  "os_Getenv env k = (case env k of None \<Rightarrow> [] | Some v \<Rightarrow> v)"

definition os_Setenv :: "environ \<Rightarrow> string \<Rightarrow> string \<Rightarrow> error + environ" where
  "os_Setenv env k v =
     (if k = [] \<or> CHR ''='' \<in> set k \<or> CHR 0x00 \<in> set k \<or> CHR 0x00 \<in> set v
      then Inl (ErrorString ''setenv: invalid argument'')
      else Inr (env(k \<mapsto> v)))"

definition EnvPrefix :: string where
  "EnvPrefix = ''GIT_TOKEN_''"

definition to_upper :: "char \<Rightarrow> char" where
  "to_upper r = (let n = (of_char r :: nat) in if 97 \<le> n \<and> n \<le> 122 then char_of (n - 32) else r)"

definition env_rune :: "char \<Rightarrow> char" where
  "env_rune r =
     (let n = (of_char r :: nat)
      in if (97 \<le> n \<and> n \<le> 122) \<or> (65 \<le> n \<and> n \<le> 90) \<or> (48 \<le> n \<and> n \<le> 57)
         then r else CHR ''_'')"

definition FormatEnvKey :: "string \<Rightarrow> string" where
  "FormatEnvKey key = EnvPrefix @ map env_rune (map to_upper key)"

definition env_Store ::
  "(Token \<Rightarrow> error + string) \<Rightarrow> environ \<Rightarrow> string \<Rightarrow> Token \<Rightarrow> error + environ" where
  "env_Store json_Marshal env key token =
     (if \<not> IsValid token then Inl ErrTokenInvalid
      else case json_Marshal token of
        Inl err \<Rightarrow> Inl (Wrapf ''failed to marshal token: '' err [])
      | Inr data \<Rightarrow>
          (case os_Setenv env (FormatEnvKey key) data of
             Inl err \<Rightarrow> Inl (Wrapf ''failed to set environment variable: '' err [])
           | Inr env' \<Rightarrow> Inr env'))"

definition env_Retrieve ::
  "(string \<Rightarrow> error + Token) \<Rightarrow> time \<Rightarrow> environ \<Rightarrow> string \<Rightarrow> error + Token" where
  "env_Retrieve json_Unmarshal now env key =
     (let data = os_Getenv env (FormatEnvKey key)
      in if data = [] then Inl ErrTokenNotFound
         else case json_Unmarshal data of
           Inl err \<Rightarrow> Inl (Wrapf ''failed to unmarshal token: '' err [])
         | Inr token \<Rightarrow>
             if \<not> IsValid token then Inl ErrTokenInvalid
             else if ExpiresAt token \<noteq> 0 \<and> now > ExpiresAt token then Inl ErrTokenExpired
             else Inr token)"

subsection \<open>Memory-backed storage\<close>

type_synonym MemoryStorage = "string \<rightharpoonup> Token"

definition NewMemoryStorage :: MemoryStorage where
  "NewMemoryStorage = Map.empty"

definition memory_Store :: "MemoryStorage \<Rightarrow> string \<Rightarrow> Token \<Rightarrow> error + MemoryStorage" where
  "memory_Store m key token =
     (if Value token = [] then Inl ErrTokenInvalid else Inr (m(key \<mapsto> token)))"

definition memory_Retrieve :: "time \<Rightarrow> MemoryStorage \<Rightarrow> string \<Rightarrow> error + Token" where
  "memory_Retrieve now m key =
     (case m key of
        None \<Rightarrow> Inl ErrTokenNotFound
      | Some token \<Rightarrow> if IsExpired now token then Inl ErrTokenExpired else Inr token)"

definition memory_Delete :: "MemoryStorage \<Rightarrow> string \<Rightarrow> MemoryStorage" where
  "memory_Delete m key = m(key := None)"

definition memory_Close :: "MemoryStorage \<Rightarrow> MemoryStorage" where
  "memory_Close m = Map.empty"

text \<open>
  What a client of the package can do to a memory storage: the map is unexported, so
  every state it ever holds comes from \<open>NewMemoryStorage\<close> by these calls. A \<open>Store\<close>
  that fails leaves the map as it was.
\<close>

datatype memory_call = CallStore string Token | CallDelete string | CallClose

fun memory_step :: "MemoryStorage \<Rightarrow> memory_call \<Rightarrow> MemoryStorage" where
  "memory_step m (CallStore key token) =
     (case memory_Store m key token of Inl err \<Rightarrow> m | Inr m' \<Rightarrow> m')"
| "memory_step m (CallDelete key) = memory_Delete m key"
| "memory_step m CallClose = memory_Close m"

definition memory_after :: "memory_call list \<Rightarrow> MemoryStorage" where
  "memory_after calls = foldl memory_step NewMemoryStorage calls"

subsection \<open>The Storage interface\<close>

text \<open>
  The two methods of the interface that the token manager calls, over a backend state
  \<open>'s\<close>.
\<close>

record 's Storage =
  Retrieve :: "'s \<Rightarrow> string \<Rightarrow> error + Token"
  Store :: "'s \<Rightarrow> string \<Rightarrow> Token \<Rightarrow> error + 's"

definition MemoryStorage_impl :: "time \<Rightarrow> MemoryStorage Storage" where
  "MemoryStorage_impl now = \<lparr>Retrieve = memory_Retrieve now, Store = memory_Store\<rparr>"

definition EnvStorage_impl ::
  "(Token \<Rightarrow> error + string) \<Rightarrow> (string \<Rightarrow> error + Token) \<Rightarrow> time \<Rightarrow> environ Storage" where
  "EnvStorage_impl json_Marshal json_Unmarshal now =
     \<lparr>Retrieve = env_Retrieve json_Unmarshal now, Store = env_Store json_Marshal\<rparr>"

subsection \<open>JSON form of a Token\<close>

text \<open>
  \<open>Token\<close> declares no \<open>MarshalJSON\<close> method, so \<open>json.Marshal\<close> writes one member per
  exported field, in declaration order, under the name of its \<open>json\<close> tag.
\<close>

datatype json_value = JString string | JTime time

definition Token_MarshalJSON :: "Token \<Rightarrow> (string \<times> json_value) list" where
  "Token_MarshalJSON token =
     [(''Value'', JString (Value token)),
      (''ExpiresAt'', JTime (ExpiresAt token)),
      (''Scope'', JString (Scope token)),
      (''CreatedAt'', JTime (CreatedAt token))]"

text \<open>
  The contract of \<open>Retrieve\<close> in the words of the specification, for the entry found
  under the key (\<open>None\<close> when there is none): not-found, then invalid, then expired.
\<close>

definition Retrieve_spec :: "time \<Rightarrow> Token option \<Rightarrow> error + Token" where
  "Retrieve_spec now entry =
     (case entry of
        None \<Rightarrow> Inl ErrTokenNotFound
      | Some token \<Rightarrow>
          if \<not> IsValid token then Inl ErrTokenInvalid
          else if IsExpired now token then Inl ErrTokenExpired
          else Inr token)"

text \<open>
  A stand-in for \<open>json.Unmarshal\<close>, used to run the environment backend on concrete
  variables. It decodes two JSON texts the way Go does (a member that is absent leaves
  the zero value of its field; the expiry of the second text is 50 nanoseconds after the
  zero time) and reports a syntax error for every other text.
\<close>

definition json_empty_value :: string where
  \<open>json_empty_value = ''{"Value":"","Scope":"repo"}''\<close>

definition json_expired :: string where
  \<open>json_expired = ''{"Value":"ghp_x","ExpiresAt":"0001-01-01T00:00:00.00000005Z","Scope":"repo"}''\<close>

definition stub_Unmarshal :: "string \<Rightarrow> error + Token" where
  "stub_Unmarshal data =
     (if data = json_empty_value
      then Inr \<lparr>Value = [], ExpiresAt = 0, Scope = ''repo'', CreatedAt = 0\<rparr>
      else if data = json_expired
      then Inr \<lparr>Value = ''ghp_x'', ExpiresAt = 50, Scope = ''repo'', CreatedAt = 0\<rparr>
      else Inl (ErrorString ''invalid character looking for beginning of value''))"

section \<open>Token refresh manager (token/refresh.go)\<close>

text \<open>
  Durations are integers (nanoseconds). \<open>ProgressCallback\<close> records whether the callback
  of the configuration is non-nil; what it is called with goes to the event list.
\<close>

record RefreshConfig =
  MinValidTime :: int
  RefreshInterval :: int
  RetryAttempts :: int
  RetryDelay :: int
  RefreshTimeout :: int
  ProgressCallback :: bool

text \<open>
  What \<open>RefreshToken\<close> does to the world, in program order: a call of the progress
  callback, a completed wait of \<open>RetryDelay\<close>, a call of the refresh handler (with the
  number of the attempt and the token passed to it).
\<close>

datatype refresh_event = Progress string | Sleep int | HandlerCall nat Token

text \<open>
  The refresh context \<open>refreshCtx\<close> as the loop observes it: \<open>done_in_wait n\<close> says
  that the \<open>select\<close> before attempt \<open>n\<close> takes the \<open>Done\<close> branch, \<open>err_after n\<close> that
  \<open>refreshCtx.Err()\<close> is non-nil after attempt \<open>n\<close> has failed, and \<open>ctx_Err\<close> is the
  error it then reports.
\<close>

record refresh_ctx =
  done_in_wait :: "nat \<Rightarrow> bool"
  err_after :: "nat \<Rightarrow> bool"
  ctx_Err :: error

text \<open>
  A \<open>RefreshHandler\<close>: what its \<open>n\<close>-th invocation returns for the token it is given
  (a token and an error, nil being \<open>None\<close>). The per-attempt context only bounds the
  handler and is part of this behaviour.
\<close>

type_synonym RefreshHandler = "nat \<Rightarrow> Token \<Rightarrow> Token \<times> error option"

definition report_progress :: "RefreshConfig \<Rightarrow> refresh_event list" where
  "report_progress cfg =
     (if ProgressCallback cfg then [Progress ''Attempting to retrieve GitHub token...''] else [])"

text \<open>
  The retry loop from the iteration \<open>attempt\<close> on. \<open>st\<close> holds the variables
  \<open>newToken\<close> and \<open>refreshErr\<close>; the result is \<open>Inl\<close> for a \<open>return\<close> inside the loop and
  \<open>Inr\<close> with the two variables when the loop is left by \<open>break\<close> or by its condition.
\<close>

function refresh_attempts ::
  "RefreshConfig \<Rightarrow> RefreshHandler \<Rightarrow> refresh_ctx \<Rightarrow> Token \<Rightarrow> int \<Rightarrow> Token \<times> error option \<Rightarrow>
   refresh_event list \<Rightarrow> (error + Token \<times> error option) \<times> refresh_event list" where
  "refresh_attempts cfg handler cx currentToken attempt st ev =
     (if attempt \<le> RetryAttempts cfg then
        (if attempt > 0 \<and> done_in_wait cx (nat attempt)
         then (Inl (Wrapf ''refresh operation timed out: '' (ctx_Err cx) []), ev)
         else
           let ev1 = ev @ (if attempt > 0 then Sleep (RetryDelay cfg) # report_progress cfg else []);
               r = handler (nat attempt) currentToken;
               ev2 = ev1 @ [HandlerCall (nat attempt) currentToken]
           in if snd r = None then (Inr r, ev2)
              else if err_after cx (nat attempt)
              then (Inl (Wrapf ''refresh operation cancelled: '' (ctx_Err cx) []), ev2)
              else refresh_attempts cfg handler cx currentToken (attempt + 1) r ev2)
      else (Inr st, ev))"
  by pat_completeness auto
termination
  by (relation "measure (\<lambda>(cfg, handler, cx, currentToken, attempt, st, ev).
        nat (RetryAttempts cfg + 1 - attempt))") auto

declare refresh_attempts.simps [simp del]

text \<open>
  \<open>RefreshToken\<close> returns its error (nil is \<open>None\<close>), the storage afterwards and the
  events it caused.
\<close>

definition RefreshToken ::
  "'s Storage \<Rightarrow> RefreshHandler \<Rightarrow> RefreshConfig \<Rightarrow> refresh_ctx \<Rightarrow> 's \<Rightarrow> string \<Rightarrow>
   error option \<times> 's \<times> refresh_event list" where
  "RefreshToken storage handler cfg cx s key =
     (case Retrieve storage s key of
        Inl err \<Rightarrow> (Some (Wrapf ''failed to retrieve token for refresh: '' err []), s, [])
      | Inr currentToken \<Rightarrow>
          (case refresh_attempts cfg handler cx currentToken 0 (zero_Token, None)
                  (report_progress cfg) of
             (Inl err, ev) \<Rightarrow> (Some err, s, ev)
           | (Inr (newToken, refreshErr), ev) \<Rightarrow>
               (case refreshErr of
                  Some err \<Rightarrow>
                    (Some (Wrapf (''token refresh failed after '' @ show_int (RetryAttempts cfg)
                                   @ '' attempts: '') err []), s, ev)
                | None \<Rightarrow>
                    if \<not> IsValid newToken
                    then (Some (Wrapf ''refreshed token is invalid: '' ErrTokenInvalid []), s, ev)
                    else (case Store storage s key newToken of
                            Inl err \<Rightarrow>
                              (Some (Wrapf ''failed to store refreshed token: '' err []), s, ev)
                          | Inr s' \<Rightarrow> (None, s', ev)))))"

definition handler_calls :: "refresh_event list \<Rightarrow> nat" where
  "handler_calls ev = length (filter (\<lambda>e. case e of HandlerCall n t \<Rightarrow> True | _ \<Rightarrow> False) ev)"

text \<open>
  The events of a refresh whose handler is invoked for the attempts \<open>0, \<dots>, n\<close>: the
  first attempt follows the opening progress report at once, every later one follows a
  wait of \<open>RetryDelay\<close> and a progress report.
\<close>

definition retry_events :: "RefreshConfig \<Rightarrow> Token \<Rightarrow> nat \<Rightarrow> nat \<Rightarrow> refresh_event list" where
  "retry_events cfg tok a n =
     concat (map (\<lambda>i. (if i > 0 then Sleep (RetryDelay cfg) # report_progress cfg else [])
                        @ [HandlerCall i tok]) [a ..< Suc n])"

text \<open>A handler that fails on every invocation, as the mock of the tests does.\<close>

definition failing_handler :: RefreshHandler where
  "failing_handler n tok = (zero_Token, Some (ErrorString ''refresh failed''))"

definition live_ctx :: refresh_ctx where
  "live_ctx = \<lparr>done_in_wait = (\<lambda>n. False), err_after = (\<lambda>n. False), ctx_Err = DeadlineExceeded\<rparr>"

definition test_config :: RefreshConfig where
  "test_config = \<lparr>MinValidTime = 86400000000000, RefreshInterval = 0, RetryAttempts = 2,
     RetryDelay = 1000000, RefreshTimeout = 100000000, ProgressCallback = False\<rparr>"

definition old_token :: Token where
  "old_token = \<lparr>Value = ''old-token'', ExpiresAt = 0, Scope = ''repo'', CreatedAt = 1\<rparr>"

section \<open>Monitors of a TokenManager (token/refresh.go)\<close>

text \<open>
  A cancel function is identified with the monitor context it cancels (a number, fresh for
  every \<open>context.WithCancel\<close>). The manager state keeps the \<open>monitors\<close> map of the source
  and, beside it, what the calls did to the world: the monitor goroutines launched (with
  their context, key and parent context), the monitor contexts cancelled, the parent
  contexts that are done, and the order of lock operations, map accesses, cancel calls and
  goroutine launches.
\<close>

datatype mutex_event =
    Lock
  | Unlock
  | MapRead string
  | MapWrite string
  | MapDelete string
  | CancelCall nat
  | GoMonitor nat string

record TokenManager =
  monitors :: "string \<rightharpoonup> nat"
  launched :: "(nat \<times> string \<times> nat) list"
  cancelled :: "nat set"
  done_parents :: "nat set"
  next_ctx :: nat
  trace :: "mutex_event list"

definition NewTokenManager :: TokenManager where
  "NewTokenManager =
     \<lparr>monitors = Map.empty, launched = [], cancelled = {}, done_parents = {}, next_ctx = 0,
      trace = []\<rparr>"

definition StartMonitoring :: "TokenManager \<Rightarrow> nat \<Rightarrow> string \<Rightarrow> TokenManager" where
  "StartMonitoring tm ctx key =
     (let tr1 = trace tm @ [Lock, MapRead key];
          (cancelled1, tr2) =
             (case monitors tm key of
                Some cancel \<Rightarrow> (insert cancel (cancelled tm), tr1 @ [CancelCall cancel])
              | None \<Rightarrow> (cancelled tm, tr1));
          monitorCtx = next_ctx tm
      in tm\<lparr>monitors := (monitors tm)(key \<mapsto> monitorCtx),
            launched := launched tm @ [(monitorCtx, key, ctx)],
            cancelled := cancelled1,
            next_ctx := Suc monitorCtx,
            trace := tr2 @ [MapWrite key, GoMonitor monitorCtx key, Unlock]\<rparr>)"

definition StopMonitoring :: "TokenManager \<Rightarrow> string \<Rightarrow> TokenManager" where
  "StopMonitoring tm key =
     (case monitors tm key of
        Some cancel \<Rightarrow>
          tm\<lparr>monitors := (monitors tm)(key := None),
              cancelled := insert cancel (cancelled tm),
              trace := trace tm @ [Lock, MapRead key, CancelCall cancel, MapDelete key, Unlock]\<rparr>
      | None \<Rightarrow> tm\<lparr>trace := trace tm @ [Lock, MapRead key, Unlock]\<rparr>)"

text \<open>The caller's ambient context \<open>ctx\<close> becomes done; the manager is not involved.\<close>

definition cancel_ambient :: "TokenManager \<Rightarrow> nat \<Rightarrow> TokenManager" where
  "cancel_ambient tm ctx = tm\<lparr>done_parents := insert ctx (done_parents tm)\<rparr>"

text \<open>
  A monitor goroutine runs until its context is done, that is until its cancel function
  is called or its parent context is done.
\<close>

definition running_monitors :: "TokenManager \<Rightarrow> string \<Rightarrow> (nat \<times> string \<times> nat) list" where
  "running_monitors tm key =
     filter (\<lambda>(c, k, p). k = key \<and> c \<notin> cancelled tm \<and> p \<notin> done_parents tm) (launched tm)"

datatype manager_call = CallStart nat string | CallStop string | CallCancelAmbient nat

fun manager_step :: "TokenManager \<Rightarrow> manager_call \<Rightarrow> TokenManager" where
  "manager_step tm (CallStart ctx key) = StartMonitoring tm ctx key"
| "manager_step tm (CallStop key) = StopMonitoring tm key"
| "manager_step tm (CallCancelAmbient ctx) = cancel_ambient tm ctx"

definition manager_after :: "manager_call list \<Rightarrow> TokenManager" where
  "manager_after calls = foldl manager_step NewTokenManager calls"

text \<open>
  A trace respects the mutex when \<open>Lock\<close> and \<open>Unlock\<close> alternate, starting from the
  given state of the lock, every other event happens while the lock is held, and the lock
  is free at the end.
\<close>

fun under_mutex :: "bool \<Rightarrow> mutex_event list \<Rightarrow> bool" where
  "under_mutex held [] = (\<not> held)"
| "under_mutex held (Lock # es) = (\<not> held \<and> under_mutex True es)"
| "under_mutex held (Unlock # es) = (held \<and> under_mutex False es)"
| "under_mutex held (e # es) = (held \<and> under_mutex held es)"

definition monitors_inv :: "TokenManager \<Rightarrow> bool" where
  "monitors_inv tm =
     (distinct (map fst (launched tm))
      \<and> list_all (\<lambda>(c, k, p). c < next_ctx tm) (launched tm)
      \<and> list_all (\<lambda>(c, k, p). c \<in> cancelled tm \<or> monitors tm k = Some c) (launched tm)
      \<and> (\<forall>k c. monitors tm k = Some c \<longrightarrow> c < next_ctx tm)
      \<and> (\<forall>c \<in> cancelled tm. c < next_ctx tm))"

section \<open>GitHub API client (package github)\<close>

record http_Request =
  Method :: string
  ReqURL :: string
  ReqHeader :: "(string \<times> string) list"
  ReqBody :: string

record http_Response =
  StatusCode :: int
  Status :: string
  RespHeader :: "(string \<times> string) list"
  RespBody :: string

record Client =
  client_token :: string
  baseURL :: string
  username :: string

text \<open>
  \<open>httpClient.Do\<close>: what the transport answers to the \<open>n\<close>-th request that is sent
  (a transport error or a response). The number of requests sent so far is the state
  that \<open>sendRequest\<close> passes on.
\<close>

type_synonym RoundTripper = "nat \<Rightarrow> http_Request \<Rightarrow> error + http_Response"

definition Header_Set :: "(string \<times> string) list \<Rightarrow> string \<Rightarrow> string \<Rightarrow> (string \<times> string) list" where
  "Header_Set h k v = (k, v) # filter (\<lambda>(k', v'). k' \<noteq> k) h"

definition userAgent :: string where
  "userAgent = ''go-gittools/1.0''"

definition sendRequest ::
  "Client \<Rightarrow> RoundTripper \<Rightarrow> nat \<Rightarrow> http_Request \<Rightarrow>
   (http_Response option \<times> error option) \<times> nat" where
  "sendRequest c do n req =
     (let h1 = Header_Set (ReqHeader req) ''Authorization'' (''Bearer '' @ client_token c);
          h2 = Header_Set h1 ''Accept'' ''application/vnd.github.v3+json'';
          h3 = Header_Set h2 ''User-Agent'' userAgent
      in case do n (req\<lparr>ReqHeader := h3\<rparr>) of
           Inl err \<Rightarrow> ((None, Some err), Suc n)
         | Inr resp \<Rightarrow>
             if StatusCode resp \<ge> 400
             then ((Some resp,
                    Some (ErrorString (''GitHub API error: '' @ Status resp @ '': '' @ RespBody resp))),
                   Suc n)
             else ((Some resp, None), Suc n))"

definition makeRequest ::
  "Client \<Rightarrow> RoundTripper \<Rightarrow> nat \<Rightarrow> http_Request \<Rightarrow>
   (http_Response option \<times> error option) \<times> nat" where
  "makeRequest c do n req = sendRequest c do n req"

text \<open>
  The mock server of \<open>TestRateLimiting\<close>: the first request is answered 403 with the
  rate-limit headers, every later one 200. Each body is the message of the JSON text the
  test writes.
\<close>

definition rate_limited_response :: http_Response where
  "rate_limited_response =
     \<lparr>StatusCode = 403, Status = ''403 Forbidden'',
      RespHeader = [(''X-RateLimit-Remaining'', ''0''), (''X-RateLimit-Reset'', ''1700000000''),
                    (''Content-Type'', ''application/json'')],
      RespBody = ''API rate limit exceeded''\<rparr>"

definition success_response :: http_Response where
  "success_response =
     \<lparr>StatusCode = 200, Status = ''200 OK'',
      RespHeader = [(''X-RateLimit-Remaining'', ''60''), (''Content-Type'', ''application/json'')],
      RespBody = ''success''\<rparr>"

definition rate_limited_once :: RoundTripper where
  "rate_limited_once n req = (if n = 0 then Inr rate_limited_response else Inr success_response)"

definition test_client :: Client where
  "test_client = \<lparr>client_token = ''test-token'', baseURL = ''http://127.0.0.1'', username = []\<rparr>"

definition test_request :: http_Request where
  "test_request =
     \<lparr>Method = ''GET'', ReqURL = ''http://127.0.0.1/test'', ReqHeader = [], ReqBody = []\<rparr>"

section \<open>GitHub token scopes (package github, TokenValidator)\<close>

text \<open>\<open>strings.Split\<close> with a one-byte separator, and \<open>strings.TrimSpace\<close> on ASCII text.\<close>

fun split_on :: "char \<Rightarrow> string \<Rightarrow> string list" where
  "split_on sep [] = [[]]"
| "split_on sep (c # cs) =
     (if c = sep then [] # split_on sep cs
      else (case split_on sep cs of [] \<Rightarrow> [[c]] | w # ws \<Rightarrow> (c # w) # ws))"

definition is_space :: "char \<Rightarrow> bool" where
  "is_space c = (let n = (of_char c :: nat) in n = 32 \<or> (9 \<le> n \<and> n \<le> 13))"

definition strings_TrimSpace :: "string \<Rightarrow> string" where
  "strings_TrimSpace s = rev (dropWhile is_space (rev (dropWhile is_space s)))"

definition ScopeRepo :: string where
  "ScopeRepo = ''repo''"

definition ScopeWorkflow :: string where
  "ScopeWorkflow = ''workflow''"

text \<open>
  The map \<open>required\<close> is an association list in the order of its literal. Go ranges over a
  map in no fixed order, so the order of \<open>Missing\<close> is that of the source only up to
  permutation when more than one scope is missing.
\<close>

definition mark_present :: "string \<Rightarrow> (string \<times> bool) list \<Rightarrow> (string \<times> bool) list" where
  "mark_present s required = map (\<lambda>(k, present). if k = s then (k, True) else (k, present)) required"

definition validateScopes :: "string \<Rightarrow> error option" where
  "validateScopes scope =
     (if scope = [] then Some (ErrorString ''no scopes provided'')
      else
        let scopes = map strings_TrimSpace (split_on CHR '','' scope);
            required = fold mark_present scopes [(ScopeRepo, False), (ScopeWorkflow, False)];
            missingScopes = map fst (filter (\<lambda>(k, present). \<not> present) required);
            scopeStatus = required
        in if length missingScopes > 0 then Some (ScopeError missingScopes scopeStatus)
           else None)"

section \<open>URLs (package urlutils)\<close>

text \<open>
  \<open>url.URL\<close> and \<open>url.Userinfo\<close> of Go's \<open>net/url\<close>. A \<open>*Userinfo\<close> is immutable, so
  the \<open>User\<close> field holds its value, \<open>None\<close> for nil. \<open>url.Parse\<close> and \<open>URL.String\<close>
  belong to Go's library and are parameters of the model.
\<close>

record Userinfo =
  ui_username :: string
  ui_password :: string
  ui_passwordSet :: bool

definition url_User :: "string \<Rightarrow> Userinfo" where
  "url_User name = \<lparr>ui_username = name, ui_password = [], ui_passwordSet = False\<rparr>"

record URL =
  Scheme :: string
  Opaque :: string
  User :: "Userinfo option"
  Host :: string
  Path :: string
  RawPath :: string
  OmitHost :: bool
  ForceQuery :: bool
  RawQuery :: string
  Fragment :: string
  RawFragment :: string

record net_url =
  url_Parse :: "string \<Rightarrow> error + URL"
  URL_String :: "URL \<Rightarrow> string"

text \<open>
  \<open>FormatTokenURL\<close> takes and returns pointers. The store of URL values is a list, a
  pointer is an index into it (\<open>None\<close> for nil), and taking the address of the local copy
  \<open>tokenURL\<close> allocates a new cell at the end.
\<close>

definition FormatTokenURL :: "URL list \<Rightarrow> nat option \<Rightarrow> string \<Rightarrow> URL list \<times> (error + nat)" where
  "FormatTokenURL heap parsedURL tok =
     (case parsedURL of
        None \<Rightarrow> (heap, Inl (Wrapf [] ErrInvalidURL '': nil URL provided''))
      | Some p \<Rightarrow>
          if tok = [] then (heap, Inl ErrEmptyToken)
          else
            let tokenURL = heap ! p;
                tokenURL1 = tokenURL\<lparr>User := None\<rparr>;
                tokenURL2 = tokenURL1\<lparr>User := Some (url_User tok)\<rparr>
            in (heap @ [tokenURL2], Inr (length heap)))"

definition strings_TrimSuffix :: "string \<Rightarrow> string \<Rightarrow> string" where
  "strings_TrimSuffix s suffix =
     (if strings_HasSuffix s suffix then take (length s - length suffix) s else s)"

definition strings_Trim :: "string \<Rightarrow> char \<Rightarrow> string" where
  "strings_Trim s c = rev (dropWhile (\<lambda>x. x = c) (rev (dropWhile (\<lambda>x. x = c) s)))"

definition sanitizeURL :: "net_url \<Rightarrow> string \<Rightarrow> string" where
  "sanitizeURL lib rawURL =
     (case url_Parse lib rawURL of
        Inr u \<Rightarrow> URL_String lib (u\<lparr>User := None\<rparr>)
      | Inl err \<Rightarrow> rawURL)"

definition is_alnum :: "char \<Rightarrow> bool" where
  "is_alnum c =
     (let n = (of_char c :: nat)
      in (97 \<le> n \<and> n \<le> 122) \<or> (65 \<le> n \<and> n \<le> 90) \<or> (48 \<le> n \<and> n \<le> 57))"

text \<open>
  \<open>ownerRegex\<close> is \<^verbatim>\<open>^[a-zA-Z0-9][a-zA-Z0-9-]{0,35}$\<close> and \<open>repoRegex\<close> is
  \<^verbatim>\<open>^[a-zA-Z0-9_.-]{1,100}$\<close>.
\<close>

definition ownerRegex :: "string \<Rightarrow> bool" where
  "ownerRegex s =
     (case s of
        [] \<Rightarrow> False
      | c # cs \<Rightarrow> is_alnum c \<and> length cs \<le> 35 \<and> list_all (\<lambda>x. is_alnum x \<or> x = CHR ''-'') cs)"

definition repoRegex :: "string \<Rightarrow> bool" where
  "repoRegex s =
     (1 \<le> length s \<and> length s \<le> 100
      \<and> list_all (\<lambda>x. is_alnum x \<or> x = CHR ''_'' \<or> x = CHR ''.'' \<or> x = CHR ''-'') s)"

definition allowedGHEDomains :: "string \<Rightarrow> bool" where
  "allowedGHEDomains host = (host = ''github.enterprise.com'' \<or> host = ''git.company.com'')"

definition isValidGitHubHost :: "string \<Rightarrow> bool" where
  "isValidGitHubHost host =
     (if host = ''github.com'' then True
      else if strings_HasSuffix host ''.github.com'' then True
      else allowedGHEDomains host)"

definition ParseHTTPSURL :: "net_url \<Rightarrow> string \<Rightarrow> error + URL" where
  "ParseHTTPSURL lib rawURL =
     (if strings_HasPrefix rawURL ''git@'' then Inl ErrNotHTTPS
      else if \<not> strings_HasPrefix rawURL ''https://'' then Inl ErrInvalidURL
      else
        let rawURL1 = sanitizeURL lib (strings_TrimSuffix rawURL ''.git'')
        in case url_Parse lib rawURL1 of
             Inl err \<Rightarrow> Inl (Wrapf [] ErrInvalidURL ('': '' @ Error err))
           | Inr parsedURL \<Rightarrow>
               if \<not> isValidGitHubHost (Host parsedURL)
               then Inl (Wrapf [] ErrInvalidHost ('': '' @ Host parsedURL))
               else
                 let pathParts = split_on CHR ''/'' (strings_Trim (Path parsedURL) CHR ''/'')
                 in if length pathParts \<noteq> 2
                    then Inl (Wrapf [] ErrInvalidPath '': URL must include owner and repository'')
                    else if \<not> ownerRegex (pathParts ! 0)
                    then Inl (Wrapf [] ErrInvalidPath '': invalid owner name format'')
                    else if \<not> repoRegex (pathParts ! 1)
                    then Inl (Wrapf [] ErrInvalidPath '': invalid repository name format'')
                    else Inr parsedURL)"

definition ValidateURL :: "net_url \<Rightarrow> string \<Rightarrow> error option" where
  "ValidateURL lib rawURL = (case ParseHTTPSURL lib rawURL of Inl err \<Rightarrow> Some err | Inr u \<Rightarrow> None)"

text \<open>
  A stand-in for \<open>net/url\<close> on URLs of the form \<open>https://github.com/path\<close>, used to run
  the model on concrete URLs: the host is \<open>github.com\<close>, the path is what follows it, and
  the credentials are written back as \<open>user@\<close> before the host.
\<close>

definition stub_url :: net_url where
  "stub_url =
     \<lparr>url_Parse = (\<lambda>s. Inr \<lparr>Scheme = ''https'', Opaque = [], User = None, Host = ''github.com'',
                           Path = drop 18 s, RawPath = [], OmitHost = False, ForceQuery = False,
                           RawQuery = [], Fragment = [], RawFragment = []\<rparr>),
      URL_String = (\<lambda>u. Scheme u @ ''://''
                       @ (case User u of None \<Rightarrow> [] | Some ui \<Rightarrow> ui_username ui @ ''@'')
                       @ Host u @ Path u)\<rparr>"

definition example_URL :: URL where
  "example_URL =
     \<lparr>Scheme = ''https'', Opaque = [],
      User = Some \<lparr>ui_username = ''alice'', ui_password = ''hunter2'', ui_passwordSet = True\<rparr>,
      Host = ''github.com'', Path = ''/owner/repo'', RawPath = [], OmitHost = False,
      ForceQuery = False, RawQuery = [], Fragment = [], RawFragment = []\<rparr>"

section \<open>Git command executor (package git)\<close>

subsection \<open>runGitCommand\<close>

definition maxRetries :: nat where
  "maxRetries = 3"

definition second :: int where
  "second = 1000000000"

text \<open>
  \<open>runGitCommand\<close> prepares one \<open>exec.Cmd\<close> ahead of its loop and calls \<open>cmd.Run()\<close> on it
  in every iteration. A call of \<open>Run\<close> on a command whose process has not been started
  either fails before a process exists (the context is done, the directory is missing,
  \<open>fork/exec\<close> fails), which leaves the command as it was, or starts the process and
  returns what waiting for it gives (nil, or an error such as "exit status 128"). Once a
  process has been started, every further \<open>Run\<close> fails with "exec: already started" and
  starts nothing.

  The world answers through \<open>process\<close> (what the \<open>i\<close>-th call of \<open>Run\<close> meets when no
  process has been started before), \<open>wait_done\<close> (the \<open>select\<close> after the failed call
  \<open>i\<close> takes the \<open>ctx.Done()\<close> branch) and \<open>wait_Err\<close> (what \<open>ctx.Err()\<close> then is). The
  events are the calls of \<open>cmd.Run()\<close>, with working directory and arguments, and the
  completed waits.
\<close>

datatype git_event = Run string "string list" | Wait int

datatype run_outcome = NotStarted error | Started "error option"

record git_world =
  process :: "nat \<Rightarrow> string list \<Rightarrow> run_outcome"
  wait_done :: "nat \<Rightarrow> bool"
  wait_Err :: error

text \<open>
  \<open>cmd.Run()\<close>: \<open>started\<close> says whether \<open>cmd.Process\<close> is set; the result is the error
  (nil being \<open>None\<close>) and the new value of that flag.
\<close>

definition cmd_Run :: "git_world \<Rightarrow> bool \<Rightarrow> nat \<Rightarrow> string list \<Rightarrow> error option \<times> bool" where
  "cmd_Run w started i args =
     (if started then (Some (ErrorString ''exec: already started''), True)
      else case process w i args of
             NotStarted err \<Rightarrow> (Some err, False)
           | Started result \<Rightarrow> (result, True))"

definition retryable :: "string \<Rightarrow> bool" where
  "retryable errStr =
     (strings_Contains errStr ''HTTP 429''
      \<or> strings_Contains errStr ''rate limit''
      \<or> strings_Contains errStr ''Authentication failed'')"

definition git_command_error :: "error \<Rightarrow> error" where
  "git_command_error e = OperationError ''git-command'' (Some e)"

text \<open>The credential injection ahead of the loop: the arguments the subprocess gets.\<close>

definition inject_token :: "net_url \<Rightarrow> string \<Rightarrow> string list \<Rightarrow> error + string list" where
  "inject_token lib tok args =
     (if length args > 0 \<and> (args ! 0 = ''clone'' \<or> args ! 0 = ''push'') \<and> length args > 1
         \<and> tok \<noteq> []
      then
        let rawURL = args ! 1
        in if strings_HasPrefix rawURL ''https://''
           then (case url_Parse lib rawURL of
                   Inl err \<Rightarrow> Inl (git_command_error (Wrapf ''invalid URL format: '' err []))
                 | Inr parsedURL \<Rightarrow>
                     (case FormatTokenURL [parsedURL] (Some 0) tok of
                        (heap, Inl err) \<Rightarrow>
                          Inl (git_command_error (Wrapf ''failed to format URL with token: '' err []))
                      | (heap, Inr tokenURL) \<Rightarrow>
                          Inr (args[1 := URL_String lib (heap ! tokenURL)])))
           else Inr args
      else Inr args)"

text \<open>
  The retry loop from the iteration \<open>i\<close> on, with the state of the command and the
  variable \<open>lastErr\<close>.
\<close>

function git_retry ::
  "git_world \<Rightarrow> string \<Rightarrow> string list \<Rightarrow> nat \<Rightarrow> bool \<Rightarrow> error option \<Rightarrow> git_event list \<Rightarrow>
   error option \<times> git_event list" where
  "git_retry w dir args i started lastErr ev =
     (if i < maxRetries then
        (case fst (cmd_Run w started i args) of
           None \<Rightarrow> (None, ev @ [Run dir args])
         | Some err \<Rightarrow>
             if retryable (Error err) then
               (if wait_done w i
                then (Some (git_command_error (Wrapf ''operation timed out: '' (wait_Err w) [])),
                      ev @ [Run dir args])
                else git_retry w dir args (Suc i) (snd (cmd_Run w started i args)) (Some err)
                       (ev @ [Run dir args, Wait (int (i + 1) * 5 * second)]))
             else (Some (git_command_error (Wrapf ''git command failed: '' err [])),
                   ev @ [Run dir args]))
      else
        (Some (git_command_error
                 (case lastErr of
                    Some err \<Rightarrow> Wrapf ''exceeded retry attempts: '' err []
                  | None \<Rightarrow> ErrorString ''exceeded retry attempts: %!w(<nil>)'')),
         ev))"
  by pat_completeness auto
termination
  by (relation "measure (\<lambda>(w, dir, args, i, started, lastErr, ev). maxRetries - i)") auto

declare git_retry.simps [simp del]

definition runGitCommand ::
  "net_url \<Rightarrow> git_world \<Rightarrow> string \<Rightarrow> string \<Rightarrow> string list \<Rightarrow> error option \<times> git_event list" where
  "runGitCommand lib w dir tok args =
     (case inject_token lib tok args of
        Inl err \<Rightarrow> (Some err, [])
      | Inr args' \<Rightarrow> git_retry w dir args' 0 False None [])"

text \<open>
  Whether a process has been started by the calls of \<open>cmd.Run()\<close> before the \<open>i\<close>-th, and
  what the \<open>i\<close>-th call returns when the loop makes it.
\<close>

fun started_before :: "git_world \<Rightarrow> string list \<Rightarrow> nat \<Rightarrow> bool" where
  "started_before w args 0 = False"
| "started_before w args (Suc i) = snd (cmd_Run w (started_before w args i) i args)"

definition Run_result :: "git_world \<Rightarrow> string list \<Rightarrow> nat \<Rightarrow> error option" where
  "Run_result w args i = fst (cmd_Run w (started_before w args i) i args)"

definition git_runs :: "git_event list \<Rightarrow> nat" where
  "git_runs ev = length (filter (\<lambda>e. case e of Run d a \<Rightarrow> True | Wait t \<Rightarrow> False) ev)"

text \<open>
  Worlds to run the loop in. A world answers the calls of \<open>Run\<close> from a script (the
  process starts and exits with status 0 once the script is used up) and lets the context
  fire during the waits listed in \<open>aborted\<close>. \<open>fork_unavailable\<close> is what \<open>Run\<close> returns
  when git was found at \<^verbatim>\<open>/opt/rate limit/bin/git\<close> and the system cannot create the
  process: no process is started, and the text of the error holds the path.
  \<open>exit_128\<close> is a git that ran and exited with status 128.
\<close>

definition scripted_world :: "run_outcome list \<Rightarrow> nat list \<Rightarrow> git_world" where
  "scripted_world script aborted =
     \<lparr>process = (\<lambda>i args. if i < length script then script ! i else Started None),
      wait_done = (\<lambda>i. i \<in> set aborted), wait_Err = DeadlineExceeded\<rparr>"

definition fork_unavailable :: error where
  "fork_unavailable =
     ErrorString ''fork/exec /opt/rate limit/bin/git: resource temporarily unavailable''"

definition exit_128 :: error where
  "exit_128 = ErrorString ''exit status 128''"

subsection \<open>CloneRepository\<close>

text \<open>
  \<open>HasProgress\<close> says whether the \<open>Progress\<close> tracker is non-nil. \<open>Context\<close> is \<open>None\<close>
  for a nil context, \<open>Some None\<close> for a context that is not done and \<open>Some (Some e)\<close> for
  a done context whose \<open>Err()\<close> is \<open>e\<close>.
\<close>

record CloneOptions =
  SourceURL :: string
  TargetURL :: string
  WorkingDir :: string
  AuthToken :: string
  HasProgress :: bool
  Context :: "error option option"

datatype clone_event =
    ProgressStart string
  | ProgressError error
  | ProgressComplete
  | MkdirTemp
  | RemoveAll string
  | Git string string "string list"

text \<open>
  The collaborators of \<open>CloneRepository\<close>: the URL library, the variable
  \<open>runGitCommand\<close> (its \<open>n\<close>-th call, with directory, token and arguments) and
  \<open>os.MkdirTemp\<close>.
\<close>

record clone_world =
  url_lib :: net_url
  run_git :: "nat \<Rightarrow> string \<Rightarrow> string \<Rightarrow> string list \<Rightarrow> error option"
  mkdir_temp :: "error + string"

definition clone_error :: "error \<Rightarrow> error" where
  "clone_error e = OperationError ''clone'' (Some e)"

definition report :: "CloneOptions \<Rightarrow> clone_event \<Rightarrow> clone_event list" where
  "report opts e = (if HasProgress opts then [e] else [])"

definition context_done :: "CloneOptions \<Rightarrow> error option" where
  "context_done opts = (case Context opts of None \<Rightarrow> None | Some d \<Rightarrow> d)"

definition check_url :: "net_url \<Rightarrow> string \<Rightarrow> error option" where
  "check_url lib u = (if \<not> strings_HasPrefix u ''file://'' then ValidateURL lib u else None)"

text \<open>
  The mirror workflow, from the creation of the temporary directory on. The deferred
  clean-up runs on every return after the directory exists.
\<close>

definition mirror_workflow :: "clone_world \<Rightarrow> CloneOptions \<Rightarrow> error option \<times> clone_event list" where
  "mirror_workflow w opts =
     (case mkdir_temp w of
        Inl err \<Rightarrow>
          (Some (clone_error (Wrapf ''failed to create temp directory: '' err [])),
           MkdirTemp # report opts (ProgressError err))
      | Inr tempDir \<Rightarrow>
          let sourceURL = SourceURL opts;
              tok = AuthToken opts;
              clone = Git tempDir tok [''clone'', sourceURL, ''.'']
          in case run_git w 0 tempDir tok [''clone'', sourceURL, ''.''] of
               Some err \<Rightarrow>
                 (Some (clone_error (Wrapf ''failed to clone source repository: '' err [])),
                  [MkdirTemp, clone] @ report opts (ProgressError err) @ [RemoveAll tempDir])
             | None \<Rightarrow>
                 let targetURL = TargetURL opts
                 in if targetURL \<noteq> [] \<and> strings_HasPrefix targetURL ''git@''
                    then (Some (clone_error
                                  (ErrorString ''SSH URLs are not supported, please use HTTPS'')),
                          [MkdirTemp, clone, RemoveAll tempDir])
                    else
                      (case (if targetURL \<noteq> [] then check_url (url_lib w) targetURL else None) of
                         Some err \<Rightarrow>
                           (Some (clone_error (Wrapf ''invalid target URL: '' err [])),
                            [MkdirTemp, clone, RemoveAll tempDir])
                       | None \<Rightarrow>
                           let add = Git tempDir tok [''remote'', ''add'', ''target'', targetURL]
                           in case run_git w 1 tempDir tok
                                     [''remote'', ''add'', ''target'', targetURL] of
                                Some err \<Rightarrow>
                                  (Some (clone_error
                                           (Wrapf ''failed to add target remote: '' err [])),
                                   [MkdirTemp, clone, add] @ report opts (ProgressError err)
                                     @ [RemoveAll tempDir])
                              | None \<Rightarrow>
                                  let push = Git tempDir tok [''push'', ''target'', ''--all'']
                                  in case run_git w 2 tempDir tok
                                            [''push'', ''target'', ''--all''] of
                                       Some err \<Rightarrow>
                                         (Some (clone_error
                                            (Wrapf ''failed to push to target repository: '' err [])),
                                          [MkdirTemp, clone, add, push]
                                            @ report opts (ProgressError err)
                                            @ [RemoveAll tempDir])
                                     | None \<Rightarrow>
                                         (None,
                                          [MkdirTemp, clone, add, push, RemoveAll tempDir])))"

text \<open>
  What follows the start of the progress tracking; the deferred \<open>Progress.Complete()\<close>
  is added by \<open>CloneRepository\<close>.
\<close>

definition clone_body :: "clone_world \<Rightarrow> CloneOptions \<Rightarrow> error option \<times> clone_event list" where
  "clone_body w opts =
     (case context_done opts of
        Some cerr \<Rightarrow>
          (let err = clone_error (Wrapf ''operation cancelled: '' cerr [])
           in (Some err, report opts (ProgressError err)))
      | None \<Rightarrow>
          let sourceURL = SourceURL opts
          in if strings_HasPrefix sourceURL ''git@''
             then (let err = clone_error
                               (ErrorString ''SSH URLs are not supported, please use HTTPS'')
                   in (Some err, report opts (ProgressError err)))
             else
               (case check_url (url_lib w) sourceURL of
                  Some verr \<Rightarrow>
                    (let err = clone_error (Wrapf ''invalid source URL: '' verr [])
                     in (Some err, report opts (ProgressError err)))
                | None \<Rightarrow>
                    if WorkingDir opts \<noteq> []
                    then
                      (let clone = Git [] (AuthToken opts) [''clone'', sourceURL, WorkingDir opts]
                       in case run_git w 0 [] (AuthToken opts)
                                 [''clone'', sourceURL, WorkingDir opts] of
                            Some err \<Rightarrow>
                              (Some (clone_error
                                       (Wrapf ''failed to clone source repository: '' err [])),
                               clone # report opts (ProgressError err))
                          | None \<Rightarrow> (None, [clone]))
                    else if TargetURL opts = [] \<and> WorkingDir opts = []
                    then (let err = clone_error (ErrorString
                                 ''either working directory or target URL must be specified'')
                          in (Some err, report opts (ProgressError err)))
                    else mirror_workflow w opts))"

definition CloneRepository :: "clone_world \<Rightarrow> CloneOptions \<Rightarrow> error option \<times> clone_event list" where
  "CloneRepository w opts =
     (if SourceURL opts = []
      then (let err = clone_error (ErrorString ''source URL must be specified'')
            in (Some err, report opts (ProgressError err)))
      else
        (case clone_body w opts of
           (result, ev) \<Rightarrow>
             (result,
              report opts (ProgressStart ''Clone Repository'') @ ev @ report opts ProgressComplete)))"

definition git_commands :: "clone_event list \<Rightarrow> clone_event list" where
  "git_commands ev = filter (\<lambda>e. case e of Git d t a \<Rightarrow> True | _ \<Rightarrow> False) ev"

text \<open>A world in which every git command succeeds, and the options of the tests.\<close>

definition good_world :: clone_world where
  "good_world =
     \<lparr>url_lib = stub_url, run_git = (\<lambda>n dir tok args. None), mkdir_temp = Inr ''/tmp/gitclone-1''\<rparr>"

definition test_options :: CloneOptions where
  "test_options =
     \<lparr>SourceURL = ''https://github.com/test/repo.git'', TargetURL = [], WorkingDir = [],
      AuthToken = ''test-token'', HasProgress = False, Context = None\<rparr>"

definition source_accepted :: "clone_world \<Rightarrow> CloneOptions \<Rightarrow> bool" where
  "source_accepted w opts =
     (SourceURL opts \<noteq> [] \<and> context_done opts = None
      \<and> \<not> strings_HasPrefix (SourceURL opts) ''git@''
      \<and> check_url (url_lib w) (SourceURL opts) = None)"

definition target_accepted :: "clone_world \<Rightarrow> CloneOptions \<Rightarrow> bool" where
  "target_accepted w opts =
     (\<not> strings_HasPrefix (TargetURL opts) ''git@''
      \<and> check_url (url_lib w) (TargetURL opts) = None)"


section \<open>Token construction\<close>

text \<open>
  Claim C9, as stated, at the empty value: \<open>NewToken\<close> rejects it with the error made by
  \<open>errors.New("token value cannot be empty")\<close>, which is not \<open>ErrTokenInvalid\<close> and does
  not wrap it.
\<close>

theorem NewToken_empty_counterexample:
  "NewToken 5 [] 0 ''repo'' = Inl (ErrorString ''token value cannot be empty'')
   \<and> \<not> errors_Is (ErrorString ''token value cannot be empty'') ErrTokenInvalid
   \<and> NewToken 5 [] 0 ''repo'' \<noteq> Inl ErrTokenInvalid"
  by (simp add: NewToken_def)

text \<open>
  Claim C9, amended: for every non-empty value \<open>s\<close>, \<open>NewToken\<close> succeeds, keeps the
  value, expiry and scope it was given, and stamps \<open>CreatedAt\<close> with a clock reading that
  lies between the reading before the call and the reading after it (the clock does not
  run backwards); for the empty value it always fails, with the error
  "token value cannot be empty", which is not the \<open>ErrTokenInvalid\<close> sentinel.
\<close>

theorem NewToken_stamps_or_rejects:
  "(s \<noteq> [] \<and> clock 0 \<le> clock 1 \<and> clock 1 \<le> clock 2 \<longrightarrow>
      (\<exists>tok. NewToken_bracketed clock s t scope = (clock 0, Inr tok, clock 2)
          \<and> Value tok = s \<and> ExpiresAt tok = t \<and> Scope tok = scope
          \<and> clock 0 \<le> CreatedAt tok \<and> CreatedAt tok \<le> clock 2))
   \<and> NewToken now [] t scope = Inl (ErrorString ''token value cannot be empty'')
   \<and> \<not> errors_Is (ErrorString ''token value cannot be empty'') ErrTokenInvalid"
  by (simp add: NewToken_def NewToken_bracketed_def IsValid_def)

theorem NewToken_stamps_or_rejects_witness:
  "''ghp_x'' \<noteq> [] \<and> int 0 \<le> int 1 \<and> int 1 \<le> int 2
   \<and> (\<exists>tok. NewToken_bracketed int ''ghp_x'' 0 ''repo'' = (0, Inr tok, 2)
          \<and> Value tok = ''ghp_x'' \<and> CreatedAt tok = 1)"
  using NewToken_stamps_or_rejects [of "''ghp_x''" int 0 "''repo''" 0]
  by (simp add: NewToken_def NewToken_bracketed_def IsValid_def)


section \<open>Order of the checks in Retrieve\<close>

lemma FormatEnvKey_github: "FormatEnvKey ''github'' = ''GIT_TOKEN_GITHUB''"
  by code_simp

lemma memory_step_valid:
  "(\<forall>k tok. m k = Some tok \<longrightarrow> IsValid tok) \<Longrightarrow> memory_step m c k = Some tok \<Longrightarrow> IsValid tok"
  by (cases c)
     (auto simp: memory_Store_def memory_Delete_def memory_Close_def IsValid_def split: if_splits)

lemma foldl_memory_step_valid:
  "(\<forall>k tok. m k = Some tok \<longrightarrow> IsValid tok) \<Longrightarrow>
   foldl memory_step m calls k = Some tok \<Longrightarrow> IsValid tok"
proof (induction calls arbitrary: m k tok)
  case Nil
  then show ?case by simp
next
  case (Cons c calls)
  have "\<forall>k tok. memory_step m c k = Some tok \<longrightarrow> IsValid tok"
    using Cons.prems(1) memory_step_valid by blast
  then show ?case using Cons.IH Cons.prems(2) by simp
qed

lemma memory_after_valid: "memory_after calls k = Some tok \<Longrightarrow> IsValid tok"
  unfolding memory_after_def
  by (rule foldl_memory_step_valid [where m = NewMemoryStorage])
     (simp_all add: NewMemoryStorage_def)

lemma memory_Retrieve_reachable:
  "memory_Retrieve now (memory_after calls) key = Retrieve_spec now (memory_after calls key)"
proof (cases "memory_after calls key")
  case None
  then show ?thesis by (simp add: memory_Retrieve_def Retrieve_spec_def)
next
  case (Some tok)
  then have "IsValid tok" by (rule memory_after_valid)
  with Some show ?thesis by (simp add: memory_Retrieve_def Retrieve_spec_def)
qed

text \<open>
  Claim C5. The environment backend checks in the order not-found, invalid, expired: no
  (or an empty) variable gives \<open>ErrTokenNotFound\<close>; a variable that decodes to a token
  failing \<open>IsValid\<close> gives \<open>ErrTokenInvalid\<close>, whatever its expiry; a variable that decodes
  to a valid token whose expiry is set and in the past gives \<open>ErrTokenExpired\<close>; so a
  decoded entry is answered as the contract \<open>Retrieve_spec\<close> says. The memory backend, in
  every state it reaches from \<open>NewMemoryStorage\<close> by \<open>Store\<close>, \<open>Delete\<close> and \<open>Close\<close>,
  gives \<open>ErrTokenNotFound\<close> when it has no entry for the key and \<open>ErrTokenExpired\<close> when the
  entry's expiry is set and in the past; every entry it holds is valid, because \<open>Store\<close>
  refuses an empty value, and its \<open>Retrieve\<close> agrees with \<open>Retrieve_spec\<close> on every key.
\<close>

theorem Retrieve_most_specific_error:
  "(os_Getenv env (FormatEnvKey key) = [] \<longrightarrow>
      env_Retrieve u now env key = Inl ErrTokenNotFound)
   \<and> (os_Getenv env (FormatEnvKey key) \<noteq> [] \<and> u (os_Getenv env (FormatEnvKey key)) = Inr tok
        \<and> \<not> IsValid tok \<longrightarrow>
      env_Retrieve u now env key = Inl ErrTokenInvalid)
   \<and> (os_Getenv env (FormatEnvKey key) \<noteq> [] \<and> u (os_Getenv env (FormatEnvKey key)) = Inr tok
        \<and> IsValid tok \<and> ExpiresAt tok \<noteq> 0 \<and> ExpiresAt tok < now \<longrightarrow>
      env_Retrieve u now env key = Inl ErrTokenExpired)
   \<and> (os_Getenv env (FormatEnvKey key) \<noteq> [] \<and> u (os_Getenv env (FormatEnvKey key)) = Inr tok
        \<longrightarrow>
      env_Retrieve u now env key = Retrieve_spec now (Some tok))
   \<and> (memory_after calls key = None \<longrightarrow>
      memory_Retrieve now (memory_after calls) key = Inl ErrTokenNotFound)
   \<and> (memory_after calls key = Some tok \<longrightarrow> IsValid tok)
   \<and> (memory_after calls key = Some tok \<and> ExpiresAt tok \<noteq> 0 \<and> ExpiresAt tok < now \<longrightarrow>
      memory_Retrieve now (memory_after calls) key = Inl ErrTokenExpired)
   \<and> memory_Retrieve now (memory_after calls) key = Retrieve_spec now (memory_after calls key)"
  using memory_after_valid [of calls key tok] memory_Retrieve_reachable [of now calls key]
  by (auto simp: env_Retrieve_def memory_Retrieve_def Retrieve_spec_def IsExpired_def Let_def
        split: option.splits)

lemma stub_Unmarshal_texts:
  "json_empty_value \<noteq> []" "json_expired \<noteq> []"
  "stub_Unmarshal json_empty_value
     = Inr \<lparr>Value = [], ExpiresAt = 0, Scope = ''repo'', CreatedAt = 0\<rparr>"
  "stub_Unmarshal json_expired
     = Inr \<lparr>Value = ''ghp_x'', ExpiresAt = 50, Scope = ''repo'', CreatedAt = 0\<rparr>"
  by (simp_all add: stub_Unmarshal_def json_empty_value_def json_expired_def)

lemma memory_after_examples:
  "memory_after [] ''k'' = None"
  "memory_after [CallStore ''k'' \<lparr>Value = ''v'', ExpiresAt = 50, Scope = [], CreatedAt = 1\<rparr>] ''k''
     = Some \<lparr>Value = ''v'', ExpiresAt = 50, Scope = [], CreatedAt = 1\<rparr>"
  "memory_after [CallStore ''k'' \<lparr>Value = [], ExpiresAt = 0, Scope = [], CreatedAt = 1\<rparr>] ''k''
     = None"
  by (simp_all add: memory_after_def NewMemoryStorage_def memory_Store_def)

theorem Retrieve_most_specific_error_witness:
  "env_Retrieve stub_Unmarshal 100 Map.empty ''github'' = Inl ErrTokenNotFound
   \<and> env_Retrieve stub_Unmarshal 100 [''GIT_TOKEN_GITHUB'' \<mapsto> json_empty_value] ''github''
       = Inl ErrTokenInvalid
   \<and> env_Retrieve stub_Unmarshal 100 [''GIT_TOKEN_GITHUB'' \<mapsto> json_expired] ''github''
       = Inl ErrTokenExpired
   \<and> memory_Retrieve 100 (memory_after []) ''k'' = Inl ErrTokenNotFound
   \<and> memory_Retrieve 100
        (memory_after [CallStore ''k'' \<lparr>Value = ''v'', ExpiresAt = 50, Scope = [], CreatedAt = 1\<rparr>])
        ''k'' = Inl ErrTokenExpired
   \<and> IsValid \<lparr>Value = ''v'', ExpiresAt = 50, Scope = [], CreatedAt = 1\<rparr>
   \<and> memory_Retrieve 100
        (memory_after [CallStore ''k'' \<lparr>Value = [], ExpiresAt = 0, Scope = [], CreatedAt = 1\<rparr>])
        ''k'' = Inl ErrTokenNotFound"
  using
    Retrieve_most_specific_error [where env = Map.empty and key = "''github''"
       and u = stub_Unmarshal and now = 100 and calls = "[]"]
    Retrieve_most_specific_error [where env = "[''GIT_TOKEN_GITHUB'' \<mapsto> json_empty_value]"
       and key = "''github''" and u = stub_Unmarshal and now = 100 and calls = "[]"
       and tok = "\<lparr>Value = [], ExpiresAt = 0, Scope = ''repo'', CreatedAt = 0\<rparr>"]
    Retrieve_most_specific_error [where env = "[''GIT_TOKEN_GITHUB'' \<mapsto> json_expired]"
       and key = "''github''" and u = stub_Unmarshal and now = 100 and calls = "[]"
       and tok = "\<lparr>Value = ''ghp_x'', ExpiresAt = 50, Scope = ''repo'', CreatedAt = 0\<rparr>"]
    Retrieve_most_specific_error [where key = "''k''" and now = 100 and calls = "[]"]
    Retrieve_most_specific_error [where key = "''k''" and now = 100
       and tok = "\<lparr>Value = ''v'', ExpiresAt = 50, Scope = [], CreatedAt = 1\<rparr>"
       and calls = "[CallStore ''k'' \<lparr>Value = ''v'', ExpiresAt = 50, Scope = [], CreatedAt = 1\<rparr>]"]
    Retrieve_most_specific_error [where key = "''k''" and now = 100
       and calls = "[CallStore ''k'' \<lparr>Value = [], ExpiresAt = 0, Scope = [], CreatedAt = 1\<rparr>]"]
  by (simp add: os_Getenv_def FormatEnvKey_github stub_Unmarshal_texts IsValid_def
        memory_after_examples)

section \<open>Bounded retries of RefreshToken\<close>

lemma show_int_2: "show_int 2 = ''2''" by code_simp
lemma show_int_3: "show_int 3 = ''3''" by code_simp

lemma refresh_attempts_all_fail:
  assumes "\<forall>n tok. snd (handler n tok) \<noteq> None"
    and "\<forall>n. \<not> done_in_wait cx n \<and> \<not> err_after cx n"
    and "0 \<le> attempt" and "attempt \<le> RetryAttempts cfg + 1" and "0 \<le> RetryAttempts cfg"
    and "attempt = RetryAttempts cfg + 1 \<longrightarrow> st = handler (nat (RetryAttempts cfg)) cur"
  shows "refresh_attempts cfg handler cx cur attempt st ev =
           (Inr (handler (nat (RetryAttempts cfg)) cur),
            ev @ retry_events cfg cur (nat attempt) (nat (RetryAttempts cfg)))"
  using assms
proof (induction cfg handler cx cur attempt st ev rule: refresh_attempts.induct)
  case (1 cfg handler cx currentToken attempt st ev)
  note fails = "1.prems"(1) and live = "1.prems"(2) and lo = "1.prems"(3)
    and hi = "1.prems"(4) and cnt = "1.prems"(5) and last = "1.prems"(6)
  show ?case
  proof (cases "attempt \<le> RetryAttempts cfg")
    case False
    with hi have eq: "attempt = RetryAttempts cfg + 1" by simp
    then have "nat attempt = Suc (nat (RetryAttempts cfg))"
      using cnt by (simp add: nat_add_distrib)
    then show ?thesis
      using False last eq
      by (subst refresh_attempts.simps) (simp add: retry_events_def)
  next
    case True
    let ?r = "handler (nat attempt) currentToken"
    let ?ev2 = "(ev @ (if attempt > 0 then Sleep (RetryDelay cfg) # report_progress cfg else []))
                  @ [HandlerCall (nat attempt) currentToken]"
    have nd0: "\<not> done_in_wait cx (nat attempt)" using live by simp
    then have nd: "\<not> (attempt > 0 \<and> done_in_wait cx (nat attempt))" by simp
    have nn: "snd ?r \<noteq> None" using fails by simp
    then obtain e where some: "snd ?r = Some e" by blast
    have ne: "\<not> err_after cx (nat attempt)" using live by simp
    have step: "refresh_attempts cfg handler cx currentToken attempt st ev =
                refresh_attempts cfg handler cx currentToken (attempt + 1) ?r ?ev2"
      using True nd0 some ne by (subst refresh_attempts.simps) (simp add: Let_def)
    have last': "attempt + 1 = RetryAttempts cfg + 1 \<longrightarrow>
                 ?r = handler (nat (RetryAttempts cfg)) currentToken"
      by auto
    have IH: "refresh_attempts cfg handler cx currentToken (attempt + 1) ?r ?ev2 =
              (Inr (handler (nat (RetryAttempts cfg)) currentToken),
               ?ev2 @ retry_events cfg currentToken (nat (attempt + 1)) (nat (RetryAttempts cfg)))"
      using "1.IH" [OF True nd refl refl refl nn ne fails live] True lo cnt last' by simp
    have up: "[nat attempt ..< Suc (nat (RetryAttempts cfg))] =
              nat attempt # [nat (attempt + 1) ..< Suc (nat (RetryAttempts cfg))]"
    proof -
      have lt: "nat attempt < Suc (nat (RetryAttempts cfg))" using True lo by simp
      have "nat (attempt + 1) = Suc (nat attempt)" using lo by (simp add: nat_add_distrib)
      then show ?thesis using upt_conv_Cons [OF lt] by simp
    qed
    have g0: "(0 < nat attempt) = (0 < attempt)" by simp
    show ?thesis
      unfolding step IH retry_events_def up by (simp add: g0)
  qed
qed

lemma handler_calls_append: "handler_calls (xs @ ys) = handler_calls xs + handler_calls ys"
  by (simp add: handler_calls_def)

lemma handler_calls_report_progress: "handler_calls (report_progress cfg) = 0"
  by (simp add: handler_calls_def report_progress_def)

lemma handler_calls_retry_events:
  "handler_calls (retry_events cfg tok a n) = Suc n - a"
proof (induction n)
  case 0
  show ?case by (cases a) (simp_all add: retry_events_def handler_calls_def)
next
  case (Suc n)
  show ?case
  proof (cases "a \<le> Suc n")
    case True
    then have "retry_events cfg tok a (Suc n) =
        retry_events cfg tok a n @ (Sleep (RetryDelay cfg) # report_progress cfg) @ [HandlerCall (Suc n) tok]"
      by (simp add: retry_events_def)
    then show ?thesis
      using Suc True
      by (simp add: handler_calls_def report_progress_def Suc_diff_le)
  next
    case False
    then show ?thesis by (simp add: retry_events_def handler_calls_def)
  qed
qed


lemma refresh_run_memory:
  "RefreshToken (MemoryStorage_impl 10) failing_handler test_config live_ctx
      [''k'' \<mapsto> old_token] ''k''
   = (Some (Wrapf ''token refresh failed after 2 attempts: '' (ErrorString ''refresh failed'') []),
      [''k'' \<mapsto> old_token],
      [HandlerCall 0 old_token, Sleep 1000000, HandlerCall 1 old_token,
       Sleep 1000000, HandlerCall 2 old_token])"
  by (simp add: RefreshToken_def MemoryStorage_impl_def memory_Retrieve_def IsExpired_def
        old_token_def refresh_attempts.simps failing_handler_def test_config_def live_ctx_def
        report_progress_def show_int_2 Let_def)

text \<open>
  Claim C2, as stated, at the configuration of the repository's test (\<open>RetryAttempts = 2\<close>)
  with a handler that always fails: the handler is invoked three times, and the error says
  "after 2 attempts": it names \<open>RetryAttempts\<close>, not the number of invocations.
\<close>

theorem RefreshToken_names_total_counterexample:
  "fst (RefreshToken (MemoryStorage_impl 10) failing_handler test_config live_ctx
          [''k'' \<mapsto> old_token] ''k'')
     = Some (Wrapf ''token refresh failed after 2 attempts: '' (ErrorString ''refresh failed'') [])
   \<and> Error (Wrapf ''token refresh failed after 2 attempts: '' (ErrorString ''refresh failed'') [])
     = ''token refresh failed after 2 attempts: refresh failed''
   \<and> handler_calls (snd (snd (RefreshToken (MemoryStorage_impl 10) failing_handler test_config
          live_ctx [''k'' \<mapsto> old_token] ''k''))) = 3
   \<and> RetryAttempts test_config + 1 = 3
   \<and> \<not> strings_Contains ''token refresh failed after 2 attempts: refresh failed'' (show_int 3)"
  unfolding refresh_run_memory
  by (simp add: handler_calls_def test_config_def show_int_3 strings_HasPrefix_def)

text \<open>
  Claim C2, amended: when \<open>RetryAttempts\<close> is not negative, the token can be retrieved,
  the handler fails on every call and the refresh context is never seen done,
  \<open>RefreshToken\<close> invokes the handler exactly \<open>RetryAttempts + 1\<close> times, waits
  \<open>RetryDelay\<close> before every attempt but the first, leaves the storage as it was, and
  fails with "token refresh failed after N attempts: cause", where N is \<open>RetryAttempts\<close>
  (the configured number of retries, one less than the number of invocations) and the
  cause is the error of the last invocation.
\<close>

theorem RefreshToken_exhausts_retries:
  assumes "0 \<le> RetryAttempts cfg"
    and "Retrieve storage s key = Inr cur"
    and "\<forall>n tok. snd (handler n tok) \<noteq> None"
    and "\<forall>n. \<not> done_in_wait cx n \<and> \<not> err_after cx n"
  shows "\<exists>cause. snd (handler (nat (RetryAttempts cfg)) cur) = Some cause
           \<and> RefreshToken storage handler cfg cx s key =
               (Some (Wrapf (''token refresh failed after '' @ show_int (RetryAttempts cfg)
                              @ '' attempts: '') cause []),
                s,
                report_progress cfg @ retry_events cfg cur 0 (nat (RetryAttempts cfg)))
           \<and> handler_calls (report_progress cfg @ retry_events cfg cur 0 (nat (RetryAttempts cfg)))
               = nat (RetryAttempts cfg + 1)"
proof -
  let ?last = "handler (nat (RetryAttempts cfg)) cur"
  obtain cause where cause: "snd ?last = Some cause" using assms(3) by blast
  have loop: "refresh_attempts cfg handler cx cur 0 (zero_Token, None) (report_progress cfg) =
                (Inr ?last, report_progress cfg @ retry_events cfg cur 0 (nat (RetryAttempts cfg)))"
    using refresh_attempts_all_fail [OF assms(3) assms(4), of 0 cfg "(zero_Token, None)" cur
        "report_progress cfg"] assms(1)
    by simp
  have run: "RefreshToken storage handler cfg cx s key =
               (Some (Wrapf (''token refresh failed after '' @ show_int (RetryAttempts cfg)
                              @ '' attempts: '') cause []),
                s,
                report_progress cfg @ retry_events cfg cur 0 (nat (RetryAttempts cfg)))"
    using cause by (cases ?last) (simp add: RefreshToken_def assms(2) loop)
  have calls: "handler_calls (report_progress cfg @ retry_events cfg cur 0 (nat (RetryAttempts cfg)))
                 = nat (RetryAttempts cfg + 1)"
    using assms(1)
    by (simp add: handler_calls_append handler_calls_report_progress handler_calls_retry_events
          nat_add_distrib)
  show ?thesis using cause run calls by blast
qed

theorem RefreshToken_exhausts_retries_witness:
  "0 \<le> RetryAttempts test_config
   \<and> Retrieve (MemoryStorage_impl 10) [''k'' \<mapsto> old_token] ''k'' = Inr old_token
   \<and> (\<forall>n tok. snd (failing_handler n tok) \<noteq> None)
   \<and> (\<forall>n. \<not> done_in_wait live_ctx n \<and> \<not> err_after live_ctx n)
   \<and> (\<exists>cause. snd (failing_handler (nat (RetryAttempts test_config)) old_token) = Some cause
         \<and> RefreshToken (MemoryStorage_impl 10) failing_handler test_config live_ctx
              [''k'' \<mapsto> old_token] ''k'' =
               (Some (Wrapf (''token refresh failed after '' @ show_int (RetryAttempts test_config)
                              @ '' attempts: '') cause []),
                [''k'' \<mapsto> old_token],
                report_progress test_config
                  @ retry_events test_config old_token 0 (nat (RetryAttempts test_config)))
         \<and> handler_calls (report_progress test_config
                  @ retry_events test_config old_token 0 (nat (RetryAttempts test_config)))
               = nat (RetryAttempts test_config + 1))"
proof -
  have h1: "0 \<le> RetryAttempts test_config" by (simp add: test_config_def)
  have h2: "Retrieve (MemoryStorage_impl 10) [''k'' \<mapsto> old_token] ''k'' = Inr old_token"
    by (simp add: MemoryStorage_impl_def memory_Retrieve_def IsExpired_def old_token_def)
  have h3: "\<forall>n tok. snd (failing_handler n tok) \<noteq> None" by (simp add: failing_handler_def)
  have h4: "\<forall>n. \<not> done_in_wait live_ctx n \<and> \<not> err_after live_ctx n" by (simp add: live_ctx_def)
  show ?thesis
    using h1 h2 h3 h4 RefreshToken_exhausts_retries [OF h1 h2 h3 h4] by blast
qed


section \<open>One monitor per key\<close>


lemma under_mutex_append_free:
  "under_mutex False xs \<Longrightarrow> under_mutex False ys \<Longrightarrow> under_mutex False (xs @ ys)"
proof -
  have "\<And>h. under_mutex h xs \<Longrightarrow> under_mutex False ys \<Longrightarrow> under_mutex h (xs @ ys)"
  proof (induction xs)
    case Nil
    then show ?case by simp
  next
    case (Cons e xs)
    then show ?case by (cases e) auto
  qed
  then show "under_mutex False xs \<Longrightarrow> under_mutex False ys \<Longrightarrow> under_mutex False (xs @ ys)"
    by blast
qed

lemma trace_StartMonitoring:
  "under_mutex False (trace tm) \<Longrightarrow> under_mutex False (trace (StartMonitoring tm ctx key))"
  by (cases "monitors tm key")
     (simp_all add: StartMonitoring_def Let_def under_mutex_append_free)

lemma trace_StopMonitoring:
  "under_mutex False (trace tm) \<Longrightarrow> under_mutex False (trace (StopMonitoring tm key))"
  by (cases "monitors tm key")
     (simp_all add: StopMonitoring_def under_mutex_append_free)

lemma inv_New: "monitors_inv NewTokenManager"
  by (simp add: monitors_inv_def NewTokenManager_def)

lemma inv_registered:
  "monitors_inv tm \<Longrightarrow> (c, k, p) \<in> set (launched tm) \<Longrightarrow>
   c \<in> cancelled tm \<or> monitors tm k = Some c"
  by (auto simp: monitors_inv_def list_all_iff)

lemma inv_bound:
  "monitors_inv tm \<Longrightarrow> (c, k, p) \<in> set (launched tm) \<Longrightarrow> c < next_ctx tm"
  by (auto simp: monitors_inv_def list_all_iff)

lemma inv_distinct: "monitors_inv tm \<Longrightarrow> distinct (map fst (launched tm))"
  by (simp add: monitors_inv_def)

lemma inv_monitors_bound: "monitors_inv tm \<Longrightarrow> monitors tm k = Some c \<Longrightarrow> c < next_ctx tm"
  by (simp add: monitors_inv_def)

lemma inv_cancelled_bound: "monitors_inv tm \<Longrightarrow> c \<in> cancelled tm \<Longrightarrow> c < next_ctx tm"
  by (simp add: monitors_inv_def)

lemma monitors_invI:
  assumes "distinct (map fst (launched tm))"
    and "\<And>c k p. (c, k, p) \<in> set (launched tm) \<Longrightarrow> c < next_ctx tm"
    and "\<And>c k p. (c, k, p) \<in> set (launched tm) \<Longrightarrow> c \<in> cancelled tm \<or> monitors tm k = Some c"
    and "\<And>k c. monitors tm k = Some c \<Longrightarrow> c < next_ctx tm"
    and "\<And>c. c \<in> cancelled tm \<Longrightarrow> c < next_ctx tm"
  shows "monitors_inv tm"
  unfolding monitors_inv_def list_all_iff using assms by fast

lemma StartMonitoring_fields:
  "monitors (StartMonitoring tm ctx key) = (monitors tm)(key \<mapsto> next_ctx tm)"
  "launched (StartMonitoring tm ctx key) = launched tm @ [(next_ctx tm, key, ctx)]"
  "cancelled (StartMonitoring tm ctx key) =
     (case monitors tm key of Some c \<Rightarrow> insert c (cancelled tm) | None \<Rightarrow> cancelled tm)"
  "done_parents (StartMonitoring tm ctx key) = done_parents tm"
  "next_ctx (StartMonitoring tm ctx key) = Suc (next_ctx tm)"
  by (cases "monitors tm key"; simp add: StartMonitoring_def Let_def)+

lemma StopMonitoring_fields:
  "monitors (StopMonitoring tm key) = (monitors tm)(key := None)"
  "launched (StopMonitoring tm key) = launched tm"
  "cancelled (StopMonitoring tm key) =
     (case monitors tm key of Some c \<Rightarrow> insert c (cancelled tm) | None \<Rightarrow> cancelled tm)"
  "done_parents (StopMonitoring tm key) = done_parents tm"
  "next_ctx (StopMonitoring tm key) = next_ctx tm"
  by (cases "monitors tm key"; auto simp add: StopMonitoring_def)+

lemma inv_StartMonitoring:
  assumes inv: "monitors_inv tm"
  shows "monitors_inv (StartMonitoring tm ctx key)"
proof (rule monitors_invI)
  have fresh: "next_ctx tm \<notin> fst ` set (launched tm)"
    using inv_bound [OF inv] by fastforce
  show "distinct (map fst (launched (StartMonitoring tm ctx key)))"
    using inv_distinct [OF inv] fresh by (simp add: StartMonitoring_fields)
next
  fix c k p
  assume "(c, k, p) \<in> set (launched (StartMonitoring tm ctx key))"
  then show "c < next_ctx (StartMonitoring tm ctx key)"
    using inv_bound [OF inv, of c k p] by (auto simp: StartMonitoring_fields)
next
  fix c k p
  assume mem: "(c, k, p) \<in> set (launched (StartMonitoring tm ctx key))"
  show "c \<in> cancelled (StartMonitoring tm ctx key)
        \<or> monitors (StartMonitoring tm ctx key) k = Some c"
  proof (cases "(c, k, p) = (next_ctx tm, key, ctx)")
    case True
    then show ?thesis by (simp add: StartMonitoring_fields)
  next
    case False
    with mem have old: "(c, k, p) \<in> set (launched tm)"
      unfolding StartMonitoring_fields by auto
    from inv_registered [OF inv old] show ?thesis
      by (cases "monitors tm key") (auto simp: StartMonitoring_fields)
  qed
next
  fix k c
  assume "monitors (StartMonitoring tm ctx key) k = Some c"
  then show "c < next_ctx (StartMonitoring tm ctx key)"
    using inv_monitors_bound [OF inv, of k c]
    by (auto simp: StartMonitoring_fields split: if_splits)
next
  fix c
  assume "c \<in> cancelled (StartMonitoring tm ctx key)"
  then show "c < next_ctx (StartMonitoring tm ctx key)"
    using inv_cancelled_bound [OF inv, of c] inv_monitors_bound [OF inv, of key c]
    by (cases "monitors tm key") (auto simp: StartMonitoring_fields)
qed

lemma inv_StopMonitoring:
  assumes inv: "monitors_inv tm"
  shows "monitors_inv (StopMonitoring tm key)"
proof (rule monitors_invI)
  show "distinct (map fst (launched (StopMonitoring tm key)))"
    using inv_distinct [OF inv] by (simp add: StopMonitoring_fields)
next
  fix c k p
  assume "(c, k, p) \<in> set (launched (StopMonitoring tm key))"
  then show "c < next_ctx (StopMonitoring tm key)"
    using inv_bound [OF inv, of c k p] by (simp add: StopMonitoring_fields)
next
  fix c k p
  assume "(c, k, p) \<in> set (launched (StopMonitoring tm key))"
  then have old: "(c, k, p) \<in> set (launched tm)" by (simp add: StopMonitoring_fields)
  from inv_registered [OF inv old]
  show "c \<in> cancelled (StopMonitoring tm key) \<or> monitors (StopMonitoring tm key) k = Some c"
    by (cases "monitors tm key") (auto simp: StopMonitoring_fields)
next
  fix k c
  assume "monitors (StopMonitoring tm key) k = Some c"
  then show "c < next_ctx (StopMonitoring tm key)"
    using inv_monitors_bound [OF inv, of k c]
    by (auto simp: StopMonitoring_fields split: if_splits)
next
  fix c
  assume "c \<in> cancelled (StopMonitoring tm key)"
  then show "c < next_ctx (StopMonitoring tm key)"
    using inv_cancelled_bound [OF inv, of c] inv_monitors_bound [OF inv, of key c]
    by (cases "monitors tm key") (auto simp: StopMonitoring_fields)
qed

lemma inv_cancel_ambient: "monitors_inv tm \<Longrightarrow> monitors_inv (cancel_ambient tm ctx)"
  by (simp add: monitors_inv_def cancel_ambient_def)

lemma inv_foldl: "monitors_inv tm \<Longrightarrow> monitors_inv (foldl manager_step tm calls)"
proof (induction calls arbitrary: tm)
  case Nil
  then show ?case by simp
next
  case (Cons c calls)
  have "monitors_inv (manager_step tm c)"
    using Cons.prems
    by (cases c) (simp_all add: inv_StartMonitoring inv_StopMonitoring inv_cancel_ambient)
  then show ?case using Cons.IH by simp
qed

lemma trace_foldl:
  "under_mutex False (trace tm) \<Longrightarrow> under_mutex False (trace (foldl manager_step tm calls))"
proof (induction calls arbitrary: tm)
  case Nil
  then show ?case by simp
next
  case (Cons c calls)
  have "under_mutex False (trace (manager_step tm c))"
    using Cons.prems
    by (cases c) (simp_all add: trace_StartMonitoring trace_StopMonitoring cancel_ambient_def)
  then show ?case using Cons.IH by simp
qed

lemma inv_manager_after: "monitors_inv (manager_after calls)"
  unfolding manager_after_def by (rule inv_foldl [OF inv_New])

lemma trace_manager_after: "under_mutex False (trace (manager_after calls))"
  unfolding manager_after_def by (rule trace_foldl) (simp add: NewTokenManager_def)

lemma distinct_fst_same_le_one:
  "distinct (map fst xs) \<Longrightarrow> \<forall>x \<in> set xs. fst x = c \<Longrightarrow> length xs \<le> Suc 0"
proof (cases xs)
  case Nil
  then show ?thesis by simp
next
  case (Cons a as)
  assume d: "distinct (map fst xs)" and s: "\<forall>x \<in> set xs. fst x = c"
  show ?thesis
  proof (cases as)
    case Nil
    with Cons show ?thesis by simp
  next
    case (Cons b bs)
    with \<open>xs = a # as\<close> d s have False by auto
    then show ?thesis ..
  qed
qed

lemma running_le_one:
  assumes inv: "monitors_inv tm"
  shows "length (running_monitors tm key) \<le> 1"
proof -
  have d: "distinct (map fst (running_monitors tm key))"
    using inv_distinct [OF inv] by (simp add: running_monitors_def distinct_map_filter)
  have reg: "\<forall>x \<in> set (running_monitors tm key). monitors tm key = Some (fst x)"
  proof
    fix x
    assume x: "x \<in> set (running_monitors tm key)"
    obtain c k p where xe: "x = (c, k, p)" by (cases x) auto
    with x have "(c, k, p) \<in> set (launched tm)" "k = key" "c \<notin> cancelled tm"
      by (auto simp: running_monitors_def)
    with inv_registered [OF inv, of c k p] xe show "monitors tm key = Some (fst x)" by simp
  qed
  show ?thesis
  proof (cases "monitors tm key")
    case None
    with reg have "running_monitors tm key = []" by (cases "running_monitors tm key") auto
    then show ?thesis by simp
  next
    case (Some c)
    with reg have "\<forall>x \<in> set (running_monitors tm key). fst x = c" by auto
    from distinct_fst_same_le_one [OF d this] show ?thesis by simp
  qed
qed

lemma running_none_unregistered:
  assumes inv: "monitors_inv tm" and none: "monitors tm key = None"
  shows "running_monitors tm key = []"
proof (cases "running_monitors tm key")
  case Nil
  then show ?thesis .
next
  case (Cons x xs)
  obtain c k p where xe: "x = (c, k, p)" by (cases x) auto
  have "x \<in> set (running_monitors tm key)" using Cons by simp
  with xe have "(c, k, p) \<in> set (launched tm)" "k = key" "c \<notin> cancelled tm"
    by (auto simp: running_monitors_def)
  with inv_registered [OF inv, of c k p] none show ?thesis by simp
qed


lemma running_after_Start:
  assumes inv: "monitors_inv tm"
  shows "running_monitors (StartMonitoring tm ctx key) key =
           (if ctx \<in> done_parents tm then [] else [(next_ctx tm, key, ctx)])"
proof -
  let ?tm' = "StartMonitoring tm ctx key"
  have old: "filter (\<lambda>(c, k, p). k = key \<and> c \<notin> cancelled ?tm' \<and> p \<notin> done_parents ?tm')
               (launched tm) = []"
  proof -
    have "\<And>x. x \<in> set (launched tm) \<Longrightarrow>
            \<not> (case x of (c, k, p) \<Rightarrow> k = key \<and> c \<notin> cancelled ?tm' \<and> p \<notin> done_parents ?tm')"
    proof -
      fix x
      assume x: "x \<in> set (launched tm)"
      obtain c k p where xe: "x = (c, k, p)" by (cases x) auto
      from inv_registered [OF inv, of c k p] x xe
      have "k = key \<longrightarrow> c \<in> cancelled ?tm'"
        by (cases "monitors tm key") (auto simp: StartMonitoring_fields)
      with xe show "\<not> (case x of (c, k, p) \<Rightarrow>
                          k = key \<and> c \<notin> cancelled ?tm' \<and> p \<notin> done_parents ?tm')"
        by auto
    qed
    then show ?thesis by (simp add: filter_empty_conv)
  qed
  have new: "next_ctx tm \<notin> cancelled ?tm'"
    using inv_cancelled_bound [OF inv, of "next_ctx tm"]
      inv_monitors_bound [OF inv, of key "next_ctx tm"]
    by (cases "monitors tm key") (auto simp: StartMonitoring_fields)
  show ?thesis
    unfolding running_monitors_def StartMonitoring_fields(2) filter_append old
    using new by (simp add: StartMonitoring_fields)
qed

text \<open>
  Claim C6: in every state a manager reaches from \<open>NewTokenManager\<close> by calls of
  \<open>StartMonitoring\<close> and \<open>StopMonitoring\<close> (and cancellations of ambient contexts), at
  most one monitor is running for each key. \<open>StartMonitoring\<close> on a key that has an entry
  calls the old cancel function and puts a fresh one in its place, so that afterwards the
  only monitor that can run for the key is the new one. \<open>StopMonitoring\<close> calls the cancel
  function, removes the key's entry and leaves no monitor running for the key. Every
  access to the map, every cancel call and every launch lies between a \<open>Lock\<close> and the
  matching \<open>Unlock\<close> of the manager's mutex.
\<close>

theorem monitors_one_per_key:
  "length (running_monitors (manager_after calls) key) \<le> 1
   \<and> (monitors (manager_after calls) key = Some old \<longrightarrow>
        old \<in> cancelled (StartMonitoring (manager_after calls) ctx key)
        \<and> next_ctx (manager_after calls) \<noteq> old
        \<and> monitors (StartMonitoring (manager_after calls) ctx key) key
             = Some (next_ctx (manager_after calls)))
   \<and> running_monitors (StartMonitoring (manager_after calls) ctx key) key
        = (if ctx \<in> done_parents (manager_after calls) then []
           else [(next_ctx (manager_after calls), key, ctx)])
   \<and> (monitors (manager_after calls) key = Some old \<longrightarrow>
        old \<in> cancelled (StopMonitoring (manager_after calls) key))
   \<and> monitors (StopMonitoring (manager_after calls) key) key = None
   \<and> running_monitors (StopMonitoring (manager_after calls) key) key = []
   \<and> under_mutex False (trace (manager_after calls))"
proof -
  let ?tm = "manager_after calls"
  have inv: "monitors_inv ?tm" by (rule inv_manager_after)
  have one: "length (running_monitors ?tm key) \<le> 1" by (rule running_le_one [OF inv])
  have start: "monitors ?tm key = Some old \<longrightarrow>
        old \<in> cancelled (StartMonitoring ?tm ctx key)
        \<and> next_ctx ?tm \<noteq> old
        \<and> monitors (StartMonitoring ?tm ctx key) key = Some (next_ctx ?tm)"
    using inv_monitors_bound [OF inv, of key old] by (auto simp: StartMonitoring_fields)
  have stop1: "monitors ?tm key = Some old \<longrightarrow> old \<in> cancelled (StopMonitoring ?tm key)"
    by (auto simp: StopMonitoring_fields)
  have stop2: "monitors (StopMonitoring ?tm key) key = None"
    by (simp add: StopMonitoring_fields)
  have stop3: "running_monitors (StopMonitoring ?tm key) key = []"
    by (rule running_none_unregistered [OF inv_StopMonitoring [OF inv] stop2])
  show ?thesis
    using one start running_after_Start [OF inv] stop1 stop2 stop3 trace_manager_after
    by simp
qed

theorem monitors_one_per_key_witness:
  "monitors (manager_after [CallStart 7 ''github'']) ''github'' = Some 0
   \<and> 0 \<in> cancelled (StartMonitoring (manager_after [CallStart 7 ''github'']) 7 ''github'')
   \<and> monitors (StartMonitoring (manager_after [CallStart 7 ''github'']) 7 ''github'') ''github''
        = Some 1
   \<and> running_monitors (StartMonitoring (manager_after [CallStart 7 ''github'']) 7 ''github'')
        ''github'' = [(1, ''github'', 7)]
   \<and> 0 \<in> cancelled (StopMonitoring (manager_after [CallStart 7 ''github'']) ''github'')
   \<and> monitors (StopMonitoring (manager_after [CallStart 7 ''github'']) ''github'') ''github''
        = None"
proof -
  have reg: "monitors (manager_after [CallStart 7 ''github'']) ''github'' = Some 0"
    by (simp add: manager_after_def NewTokenManager_def StartMonitoring_def)
  have nxt: "next_ctx (manager_after [CallStart 7 ''github'']) = 1"
    by (simp add: manager_after_def NewTokenManager_def StartMonitoring_def)
  have par: "done_parents (manager_after [CallStart 7 ''github'']) = {}"
    by (simp add: manager_after_def NewTokenManager_def StartMonitoring_def)
  show ?thesis
    using reg
      monitors_one_per_key [of "[CallStart 7 ''github'']" "''github''" 0 7]
    by (simp add: nxt par)
qed


section \<open>Rate-limited API requests\<close>

text \<open>
  Claim C1 at the mock server of \<open>TestRateLimiting\<close> (403 with rate-limit headers, then
  200): \<open>sendRequest\<close>, reached through \<open>makeRequest\<close>, sends one request and returns the
  403 response with a "GitHub API error" error; it never sends a second request, whatever
  the transport answers.
\<close>

theorem sendRequest_rate_limit_no_retry:
  "makeRequest test_client rate_limited_once 0 test_request =
     ((Some rate_limited_response,
       Some (ErrorString ''GitHub API error: 403 Forbidden: API rate limit exceeded'')), 1)
   \<and> snd (sendRequest c do n req) = Suc n"
  by (simp add: makeRequest_def sendRequest_def rate_limited_once_def rate_limited_response_def
        Let_def split: sum.splits)

section \<open>Serialized form of a Token\<close>

text \<open>
  Claim C3 at the token of \<open>TestToken_JSONMarshaling\<close>: the JSON object that
  \<open>json.Marshal\<close> writes for it carries the secret under the member \<open>Value\<close>, has no
  member \<open>value\<close>, and holds the string \<open>REDACTED\<close> nowhere.
\<close>

theorem Token_json_not_redacted:
  "map_of (Token_MarshalJSON \<lparr>Value = ''secret-value'', ExpiresAt = 3600, Scope = ''repo'',
             CreatedAt = 1\<rparr>) ''Value'' = Some (JString ''secret-value'')
   \<and> map_of (Token_MarshalJSON \<lparr>Value = ''secret-value'', ExpiresAt = 3600, Scope = ''repo'',
             CreatedAt = 1\<rparr>) ''value'' = None
   \<and> JString ''REDACTED'' \<notin> snd ` set (Token_MarshalJSON \<lparr>Value = ''secret-value'',
             ExpiresAt = 3600, Scope = ''repo'', CreatedAt = 1\<rparr>)"
  by (simp add: Token_MarshalJSON_def)

section \<open>Scope validation\<close>

text \<open>
  Claim C4 at the scope string \<open>repo workflow\<close>: \<open>validateScopes\<close> splits on commas only,
  so the space-separated string is one entry that matches no required scope, and both
  scopes are reported missing. The three examples of the claim come out as it says.
\<close>

theorem validateScopes_space_separated:
  "validateScopes ''repo workflow''
     = Some (ScopeError [''repo'', ''workflow''] [(''repo'', False), (''workflow'', False)])
   \<and> validateScopes ''repo''
     = Some (ScopeError [''workflow''] [(''repo'', True), (''workflow'', False)])
   \<and> validateScopes ''repo,workflow,extra'' = None
   \<and> validateScopes [] = Some (ErrorString ''no scopes provided'')"
  by (simp add: validateScopes_def strings_TrimSpace_def is_space_def mark_present_def
        ScopeRepo_def ScopeWorkflow_def)


section \<open>Token URLs\<close>

text \<open>
  Claim C10: for a non-nil pointer to a URL and a non-empty token, \<open>FormatTokenURL\<close>
  returns a pointer to a new URL that equals the original in every field but \<open>User\<close>, whose
  userinfo is the token alone (no password, whatever credentials the original carried);
  every URL that existed before the call, the original among them, is unchanged. A nil
  pointer fails with an error that is \<open>ErrInvalidURL\<close> (wrapped), and an empty token with a
  non-nil pointer fails with \<open>ErrEmptyToken\<close>.
\<close>

theorem FormatTokenURL_replaces_userinfo:
  "(p < length heap \<and> tok \<noteq> [] \<longrightarrow>
      (\<exists>heap' q. FormatTokenURL heap (Some p) tok = (heap', Inr q)
         \<and> q \<noteq> p \<and> q < length heap'
         \<and> heap' ! q = (heap ! p)\<lparr>User := Some (url_User tok)\<rparr>
         \<and> User (heap' ! q)
              = Some \<lparr>ui_username = tok, ui_password = [], ui_passwordSet = False\<rparr>
         \<and> take (length heap) heap' = heap
         \<and> heap' ! p = heap ! p))
   \<and> (\<exists>err. FormatTokenURL heap None tok = (heap, Inl err) \<and> errors_Is err ErrInvalidURL)
   \<and> FormatTokenURL heap (Some p) [] = (heap, Inl ErrEmptyToken)"
  by (simp add: FormatTokenURL_def Let_def url_User_def nth_append)

theorem FormatTokenURL_replaces_userinfo_witness:
  "(0::nat) < length [example_URL] \<and> ''ghp_x'' \<noteq> []
   \<and> (\<exists>heap' q. FormatTokenURL [example_URL] (Some 0) ''ghp_x'' = (heap', Inr q)
         \<and> q \<noteq> 0
         \<and> User (heap' ! q)
              = Some \<lparr>ui_username = ''ghp_x'', ui_password = [], ui_passwordSet = False\<rparr>
         \<and> heap' ! 0 = example_URL
         \<and> User (heap' ! 0)
              = Some \<lparr>ui_username = ''alice'', ui_password = ''hunter2'', ui_passwordSet = True\<rparr>)"
  using FormatTokenURL_replaces_userinfo [of 0 "[example_URL]" "''ghp_x''"]
  by (auto simp: example_URL_def)


section \<open>Retry policy of the git subprocess\<close>

lemma show_nat_3: "show_nat 3 = ''3''" by code_simp

lemma git_retry_step:
  assumes "i < 3"
  shows "git_retry w dir a i (started_before w a i) lastErr ev =
     (case Run_result w a i of
        None \<Rightarrow> (None, ev @ [Run dir a])
      | Some err \<Rightarrow>
          if \<not> retryable (Error err)
          then (Some (git_command_error (Wrapf ''git command failed: '' err [])), ev @ [Run dir a])
          else if wait_done w i
          then (Some (git_command_error (Wrapf ''operation timed out: '' (wait_Err w) [])),
                ev @ [Run dir a])
          else git_retry w dir a (Suc i) (started_before w a (Suc i)) (Some err)
                 (ev @ [Run dir a, Wait (int (i + 1) * 5 * second)]))"
  using assms
  by (subst git_retry.simps) (simp add: maxRetries_def Run_result_def split: option.splits)

lemma git_retry_end:
  "git_retry w dir a 3 started (Some err) ev =
     (Some (git_command_error (Wrapf ''exceeded retry attempts: '' err [])), ev)"
  by (subst git_retry.simps) (simp add: maxRetries_def)

lemma git_retry_0:
  "git_retry w dir a 0 False None [] =
     (case Run_result w a 0 of
        None \<Rightarrow> (None, [Run dir a])
      | Some e0 \<Rightarrow>
          if \<not> retryable (Error e0)
          then (Some (git_command_error (Wrapf ''git command failed: '' e0 [])), [Run dir a])
          else if wait_done w 0
          then (Some (git_command_error (Wrapf ''operation timed out: '' (wait_Err w) [])),
                [Run dir a])
          else git_retry w dir a (Suc 0) (started_before w a (Suc 0)) (Some e0)
                 [Run dir a, Wait (5 * second)])"
  using git_retry_step [of 0 w dir a None "[]"]
  by (simp split: option.splits del: started_before.simps(2))

lemma git_retry_1:
  "git_retry w dir a (Suc 0) (started_before w a (Suc 0)) lastErr ev =
     (case Run_result w a (Suc 0) of
        None \<Rightarrow> (None, ev @ [Run dir a])
      | Some e1 \<Rightarrow>
          if \<not> retryable (Error e1)
          then (Some (git_command_error (Wrapf ''git command failed: '' e1 [])), ev @ [Run dir a])
          else if wait_done w (Suc 0)
          then (Some (git_command_error (Wrapf ''operation timed out: '' (wait_Err w) [])),
                ev @ [Run dir a])
          else git_retry w dir a (Suc (Suc 0)) (started_before w a (Suc (Suc 0))) (Some e1)
                 (ev @ [Run dir a, Wait (10 * second)]))"
  using git_retry_step [of "Suc 0" w dir a lastErr ev]
  by (simp split: option.splits del: started_before.simps(2))

lemma git_retry_2:
  "git_retry w dir a (Suc (Suc 0)) (started_before w a (Suc (Suc 0))) lastErr ev =
     (case Run_result w a (Suc (Suc 0)) of
        None \<Rightarrow> (None, ev @ [Run dir a])
      | Some e2 \<Rightarrow>
          if \<not> retryable (Error e2)
          then (Some (git_command_error (Wrapf ''git command failed: '' e2 [])), ev @ [Run dir a])
          else if wait_done w (Suc (Suc 0))
          then (Some (git_command_error (Wrapf ''operation timed out: '' (wait_Err w) [])),
                ev @ [Run dir a])
          else (Some (git_command_error (Wrapf ''exceeded retry attempts: '' e2 [])),
                ev @ [Run dir a, Wait (15 * second)]))"
  using git_retry_step [of "Suc (Suc 0)" w dir a lastErr ev]
    git_retry_end [of w dir a "started_before w a (Suc (Suc (Suc 0)))"]
  by (simp add: numeral_3_eq_3 split: option.splits del: started_before.simps(2))

text \<open>
  Once a call of \<open>Run\<close> has started the process, the next call starts nothing: it fails
  with "exec: already started", which is not retryable.
\<close>

lemma Run_after_start:
  assumes "process w 0 a = Started r"
  shows "Run_result w a (Suc 0) = Some (ErrorString ''exec: already started'')"
    and "\<not> retryable (Error (ErrorString ''exec: already started''))"
  using assms
  by (simp_all add: Run_result_def cmd_Run_def retryable_def strings_HasPrefix_def)

text \<open>
  Claim C8, amended. Let \<open>a\<close> be the arguments the subprocess gets. The loop calls
  \<open>cmd.Run()\<close> at most three times. A call that returns nil ends the function with nil. A
  call that fails is followed by another call only when the text of its error contains
  \<open>HTTP 429\<close>, \<open>rate limit\<close> or \<open>Authentication failed\<close>; any other failure is returned
  at once as an \<open>OperationError\<close> of the operation \<open>git-command\<close> around "git command
  failed". After the retryable failure of call \<open>i\<close> (counted from 1) the loop waits \<open>i\<close>
  times five seconds, and returns "operation timed out" in place of the wait when the
  context fires first. When all three calls fail retryably and no wait is cut short, the
  function returns, after the third wait, an \<open>OperationError\<close> of \<open>git-command\<close> around
  "exceeded retry attempts" and the error of the last call. That error carries no count.
  The ten cases are all the ways through the loop.
\<close>

theorem runGitCommand_retry_policy:
  assumes "inject_token lib tok args = Inr a"
  shows
   "(Run_result w a 0 = None \<longrightarrow> runGitCommand lib w dir tok args = (None, [Run dir a]))
    \<and> (Run_result w a 0 = Some e0 \<and> \<not> retryable (Error e0) \<longrightarrow>
         runGitCommand lib w dir tok args =
           (Some (OperationError ''git-command'' (Some (Wrapf ''git command failed: '' e0 []))),
            [Run dir a]))
    \<and> (Run_result w a 0 = Some e0 \<and> retryable (Error e0) \<and> wait_done w 0 \<longrightarrow>
         runGitCommand lib w dir tok args =
           (Some (OperationError ''git-command''
                    (Some (Wrapf ''operation timed out: '' (wait_Err w) []))),
            [Run dir a]))
    \<and> (Run_result w a 0 = Some e0 \<and> retryable (Error e0) \<and> \<not> wait_done w 0
          \<and> Run_result w a 1 = None \<longrightarrow>
         runGitCommand lib w dir tok args = (None, [Run dir a, Wait (5 * second), Run dir a]))
    \<and> (Run_result w a 0 = Some e0 \<and> retryable (Error e0) \<and> \<not> wait_done w 0
          \<and> Run_result w a 1 = Some e1 \<and> \<not> retryable (Error e1) \<longrightarrow>
         runGitCommand lib w dir tok args =
           (Some (OperationError ''git-command'' (Some (Wrapf ''git command failed: '' e1 []))),
            [Run dir a, Wait (5 * second), Run dir a]))
    \<and> (Run_result w a 0 = Some e0 \<and> retryable (Error e0) \<and> \<not> wait_done w 0
          \<and> Run_result w a 1 = Some e1 \<and> retryable (Error e1) \<and> wait_done w 1 \<longrightarrow>
         runGitCommand lib w dir tok args =
           (Some (OperationError ''git-command''
                    (Some (Wrapf ''operation timed out: '' (wait_Err w) []))),
            [Run dir a, Wait (5 * second), Run dir a]))
    \<and> (Run_result w a 0 = Some e0 \<and> retryable (Error e0) \<and> \<not> wait_done w 0
          \<and> Run_result w a 1 = Some e1 \<and> retryable (Error e1) \<and> \<not> wait_done w 1
          \<and> Run_result w a 2 = None \<longrightarrow>
         runGitCommand lib w dir tok args =
           (None, [Run dir a, Wait (5 * second), Run dir a, Wait (10 * second), Run dir a]))
    \<and> (Run_result w a 0 = Some e0 \<and> retryable (Error e0) \<and> \<not> wait_done w 0
          \<and> Run_result w a 1 = Some e1 \<and> retryable (Error e1) \<and> \<not> wait_done w 1
          \<and> Run_result w a 2 = Some e2 \<and> \<not> retryable (Error e2) \<longrightarrow>
         runGitCommand lib w dir tok args =
           (Some (OperationError ''git-command'' (Some (Wrapf ''git command failed: '' e2 []))),
            [Run dir a, Wait (5 * second), Run dir a, Wait (10 * second), Run dir a]))
    \<and> (Run_result w a 0 = Some e0 \<and> retryable (Error e0) \<and> \<not> wait_done w 0
          \<and> Run_result w a 1 = Some e1 \<and> retryable (Error e1) \<and> \<not> wait_done w 1
          \<and> Run_result w a 2 = Some e2 \<and> retryable (Error e2) \<and> wait_done w 2 \<longrightarrow>
         runGitCommand lib w dir tok args =
           (Some (OperationError ''git-command''
                    (Some (Wrapf ''operation timed out: '' (wait_Err w) []))),
            [Run dir a, Wait (5 * second), Run dir a, Wait (10 * second), Run dir a]))
    \<and> (Run_result w a 0 = Some e0 \<and> retryable (Error e0) \<and> \<not> wait_done w 0
          \<and> Run_result w a 1 = Some e1 \<and> retryable (Error e1) \<and> \<not> wait_done w 1
          \<and> Run_result w a 2 = Some e2 \<and> retryable (Error e2) \<and> \<not> wait_done w 2 \<longrightarrow>
         runGitCommand lib w dir tok args =
           (Some (OperationError ''git-command''
                    (Some (Wrapf ''exceeded retry attempts: '' e2 []))),
            [Run dir a, Wait (5 * second), Run dir a, Wait (10 * second), Run dir a,
             Wait (15 * second)])
         \<and> git_runs (snd (runGitCommand lib w dir tok args)) = maxRetries)"
  using assms
  by (simp add: runGitCommand_def git_retry_0 git_retry_1 git_retry_2 git_command_error_def
        git_runs_def maxRetries_def numeral_2_eq_2 del: started_before.simps(2))


lemma inject_no_token: "inject_token lib [] args = Inr args"
  by (simp add: inject_token_def)

lemma retryable_outcomes:
  "retryable (Error fork_unavailable)"
  "\<not> retryable (Error exit_128)"
  by (simp_all add: retryable_def strings_HasPrefix_def fork_unavailable_def exit_128_def)

lemma scripted_Run_result:
  "Run_result (scripted_world (Started r # script) ab) a 0 = r"
  "Run_result (scripted_world (NotStarted e # script) ab) a 0 = Some e"
  "Run_result (scripted_world (NotStarted e # Started r # script) ab) a (Suc 0) = r"
  "Run_result (scripted_world [NotStarted e] ab) a (Suc 0) = None"
  "Run_result (scripted_world (NotStarted e # NotStarted e1 # script) ab) a (Suc 0) = Some e1"
  "Run_result (scripted_world (NotStarted e # NotStarted e1 # Started r # script) ab) a 2 = r"
  "Run_result (scripted_world [NotStarted e, NotStarted e1] ab) a 2 = None"
  "Run_result (scripted_world (NotStarted e # NotStarted e1 # NotStarted e2 # script) ab) a 2
     = Some e2"
  by (simp_all add: Run_result_def cmd_Run_def scripted_world_def numeral_2_eq_2)

text \<open>
  Claim C8, as stated, at a direct clone with a token on a machine where git is found at
  \<^verbatim>\<open>/opt/rate limit/bin/git\<close> and no process can be created: each of the three calls of
  \<open>Run\<close> fails before a process exists, the text of the error holds \<open>rate limit\<close>, and
  after the three waits the error is "git-command: exceeded retry attempts: fork/exec
  ...", which does not name the number of retries.
\<close>

theorem runGitCommand_retry_count_counterexample:
  "runGitCommand stub_url
      (scripted_world [NotStarted fork_unavailable, NotStarted fork_unavailable,
                       NotStarted fork_unavailable] [])
      [] ''test-token'' [''clone'', ''https://github.com/test/repo.git'', ''testdata'']
     = (Some (OperationError ''git-command''
                (Some (Wrapf ''exceeded retry attempts: '' fork_unavailable []))),
        [Run [] [''clone'', ''https://test-token@github.com/test/repo.git'', ''testdata''],
         Wait 5000000000,
         Run [] [''clone'', ''https://test-token@github.com/test/repo.git'', ''testdata''],
         Wait 10000000000,
         Run [] [''clone'', ''https://test-token@github.com/test/repo.git'', ''testdata''],
         Wait 15000000000])
   \<and> Error (OperationError ''git-command''
                (Some (Wrapf ''exceeded retry attempts: '' fork_unavailable [])))
     = ''git-command: exceeded retry attempts: fork/exec /opt/rate limit/bin/git: resource temporarily unavailable''
   \<and> \<not> strings_Contains
         ''git-command: exceeded retry attempts: fork/exec /opt/rate limit/bin/git: resource temporarily unavailable''
         (show_nat maxRetries)"
proof -
  have inj: "inject_token stub_url ''test-token''
               [''clone'', ''https://github.com/test/repo.git'', ''testdata'']
             = Inr [''clone'', ''https://test-token@github.com/test/repo.git'', ''testdata'']"
    by (simp add: inject_token_def stub_url_def FormatTokenURL_def url_User_def
          strings_HasPrefix_def Let_def)
  have run: "runGitCommand stub_url
      (scripted_world [NotStarted fork_unavailable, NotStarted fork_unavailable,
                       NotStarted fork_unavailable] [])
      [] ''test-token'' [''clone'', ''https://github.com/test/repo.git'', ''testdata'']
     = (Some (OperationError ''git-command''
                (Some (Wrapf ''exceeded retry attempts: '' fork_unavailable []))),
        [Run [] [''clone'', ''https://test-token@github.com/test/repo.git'', ''testdata''],
         Wait 5000000000,
         Run [] [''clone'', ''https://test-token@github.com/test/repo.git'', ''testdata''],
         Wait 10000000000,
         Run [] [''clone'', ''https://test-token@github.com/test/repo.git'', ''testdata''],
         Wait 15000000000])"
  proof -
    let ?W = "scripted_world [NotStarted fork_unavailable, NotStarted fork_unavailable,
                       NotStarted fork_unavailable] []"
    let ?a = "[''clone'', ''https://test-token@github.com/test/repo.git'', ''testdata'']"
    have r0: "Run_result ?W ?a 0 = Some fork_unavailable"
      and r1: "Run_result ?W ?a (Suc 0) = Some fork_unavailable"
      and r2: "Run_result ?W ?a (Suc (Suc 0)) = Some fork_unavailable"
      by (simp_all add: Run_result_def cmd_Run_def scripted_world_def)
    have nd: "\<And>i. \<not> wait_done ?W i" by (simp add: scripted_world_def)
    show ?thesis
      unfolding runGitCommand_def inj
      by (simp add: git_retry_0 git_retry_1 git_retry_2 r0 r1 r2 nd retryable_outcomes
            git_command_error_def second_def del: started_before.simps(2))
  qed
  have msg: "Error (OperationError ''git-command''
                (Some (Wrapf ''exceeded retry attempts: '' fork_unavailable [])))
     = ''git-command: exceeded retry attempts: fork/exec /opt/rate limit/bin/git: resource temporarily unavailable''"
    by (simp add: fork_unavailable_def)
  have nocount: "\<not> strings_Contains
         ''git-command: exceeded retry attempts: fork/exec /opt/rate limit/bin/git: resource temporarily unavailable''
         (show_nat maxRetries)"
    by (simp add: maxRetries_def show_nat_3 strings_HasPrefix_def)
  show ?thesis using run msg nocount by blast
qed

lemma scripted_waits:
  "wait_done (scripted_world script aborted) i = (i \<in> set aborted)"
  "wait_Err (scripted_world script aborted) = DeadlineExceeded"
  by (simp_all add: scripted_world_def)

theorem runGitCommand_retry_policy_witness:
  "runGitCommand stub_url (scripted_world [Started None] [])
       ''/tmp/gitclone-1'' [] [''push'', ''target'', ''--all'']
     = (None,
        [Run ''/tmp/gitclone-1'' [''push'', ''target'', ''--all'']])
   \<and> runGitCommand stub_url (scripted_world [Started (Some exit_128)] [])
       ''/tmp/gitclone-1'' [] [''push'', ''target'', ''--all'']
     = (Some (OperationError ''git-command'' (Some (Wrapf ''git command failed: '' exit_128 []))),
        [Run ''/tmp/gitclone-1'' [''push'', ''target'', ''--all'']])
   \<and> runGitCommand stub_url (scripted_world [NotStarted fork_unavailable] [0])
       ''/tmp/gitclone-1'' [] [''push'', ''target'', ''--all'']
     = (Some (OperationError ''git-command'' (Some (Wrapf ''operation timed out: '' DeadlineExceeded []))),
        [Run ''/tmp/gitclone-1'' [''push'', ''target'', ''--all'']])
   \<and> runGitCommand stub_url (scripted_world [NotStarted fork_unavailable, Started None] [])
       ''/tmp/gitclone-1'' [] [''push'', ''target'', ''--all'']
     = (None,
        [Run ''/tmp/gitclone-1'' [''push'', ''target'', ''--all''],
         Wait (5 * second),
         Run ''/tmp/gitclone-1'' [''push'', ''target'', ''--all'']])
   \<and> runGitCommand stub_url (scripted_world [NotStarted fork_unavailable, Started (Some exit_128)] [])
       ''/tmp/gitclone-1'' [] [''push'', ''target'', ''--all'']
     = (Some (OperationError ''git-command'' (Some (Wrapf ''git command failed: '' exit_128 []))),
        [Run ''/tmp/gitclone-1'' [''push'', ''target'', ''--all''],
         Wait (5 * second),
         Run ''/tmp/gitclone-1'' [''push'', ''target'', ''--all'']])
   \<and> runGitCommand stub_url (scripted_world [NotStarted fork_unavailable, NotStarted fork_unavailable] [1])
       ''/tmp/gitclone-1'' [] [''push'', ''target'', ''--all'']
     = (Some (OperationError ''git-command'' (Some (Wrapf ''operation timed out: '' DeadlineExceeded []))),
        [Run ''/tmp/gitclone-1'' [''push'', ''target'', ''--all''],
         Wait (5 * second),
         Run ''/tmp/gitclone-1'' [''push'', ''target'', ''--all'']])
   \<and> runGitCommand stub_url (scripted_world [NotStarted fork_unavailable, NotStarted fork_unavailable, Started None] [])
       ''/tmp/gitclone-1'' [] [''push'', ''target'', ''--all'']
     = (None,
        [Run ''/tmp/gitclone-1'' [''push'', ''target'', ''--all''],
         Wait (5 * second),
         Run ''/tmp/gitclone-1'' [''push'', ''target'', ''--all''],
         Wait (10 * second),
         Run ''/tmp/gitclone-1'' [''push'', ''target'', ''--all'']])
   \<and> runGitCommand stub_url (scripted_world [NotStarted fork_unavailable, NotStarted fork_unavailable, Started (Some exit_128)] [])
       ''/tmp/gitclone-1'' [] [''push'', ''target'', ''--all'']
     = (Some (OperationError ''git-command'' (Some (Wrapf ''git command failed: '' exit_128 []))),
        [Run ''/tmp/gitclone-1'' [''push'', ''target'', ''--all''],
         Wait (5 * second),
         Run ''/tmp/gitclone-1'' [''push'', ''target'', ''--all''],
         Wait (10 * second),
         Run ''/tmp/gitclone-1'' [''push'', ''target'', ''--all'']])
   \<and> runGitCommand stub_url (scripted_world [NotStarted fork_unavailable, NotStarted fork_unavailable, NotStarted fork_unavailable] [2])
       ''/tmp/gitclone-1'' [] [''push'', ''target'', ''--all'']
     = (Some (OperationError ''git-command'' (Some (Wrapf ''operation timed out: '' DeadlineExceeded []))),
        [Run ''/tmp/gitclone-1'' [''push'', ''target'', ''--all''],
         Wait (5 * second),
         Run ''/tmp/gitclone-1'' [''push'', ''target'', ''--all''],
         Wait (10 * second),
         Run ''/tmp/gitclone-1'' [''push'', ''target'', ''--all'']])
   \<and> runGitCommand stub_url (scripted_world [NotStarted fork_unavailable, NotStarted fork_unavailable, NotStarted fork_unavailable] [])
       ''/tmp/gitclone-1'' [] [''push'', ''target'', ''--all'']
     = (Some (OperationError ''git-command'' (Some (Wrapf ''exceeded retry attempts: '' fork_unavailable []))),
        [Run ''/tmp/gitclone-1'' [''push'', ''target'', ''--all''],
         Wait (5 * second),
         Run ''/tmp/gitclone-1'' [''push'', ''target'', ''--all''],
         Wait (10 * second),
         Run ''/tmp/gitclone-1'' [''push'', ''target'', ''--all''],
         Wait (15 * second)])"
proof -
  have c0: "runGitCommand stub_url (scripted_world [Started None] [])
           ''/tmp/gitclone-1'' [] [''push'', ''target'', ''--all'']
         = (None,
            [Run ''/tmp/gitclone-1'' [''push'', ''target'', ''--all'']])"
    using runGitCommand_retry_policy [OF inject_no_token,
      where w = "scripted_world [Started None] []" and lib = stub_url and dir = "''/tmp/gitclone-1''" and a = "[''push'', ''target'', ''--all'']"]
    by (simp add: scripted_Run_result scripted_waits retryable_outcomes)
  have c1: "runGitCommand stub_url (scripted_world [Started (Some exit_128)] [])
           ''/tmp/gitclone-1'' [] [''push'', ''target'', ''--all'']
         = (Some (OperationError ''git-command'' (Some (Wrapf ''git command failed: '' exit_128 []))),
            [Run ''/tmp/gitclone-1'' [''push'', ''target'', ''--all'']])"
    using runGitCommand_retry_policy [OF inject_no_token,
      where w = "scripted_world [Started (Some exit_128)] []" and lib = stub_url and dir = "''/tmp/gitclone-1''" and a = "[''push'', ''target'', ''--all'']" and ?e0.0 = exit_128]
    by (simp add: scripted_Run_result scripted_waits retryable_outcomes)
  have c2: "runGitCommand stub_url (scripted_world [NotStarted fork_unavailable] [0])
           ''/tmp/gitclone-1'' [] [''push'', ''target'', ''--all'']
         = (Some (OperationError ''git-command'' (Some (Wrapf ''operation timed out: '' DeadlineExceeded []))),
            [Run ''/tmp/gitclone-1'' [''push'', ''target'', ''--all'']])"
    using runGitCommand_retry_policy [OF inject_no_token,
      where w = "scripted_world [NotStarted fork_unavailable] [0]" and lib = stub_url and dir = "''/tmp/gitclone-1''" and a = "[''push'', ''target'', ''--all'']" and ?e0.0 = fork_unavailable]
    by (simp add: scripted_Run_result scripted_waits retryable_outcomes)
  have c3: "runGitCommand stub_url (scripted_world [NotStarted fork_unavailable, Started None] [])
           ''/tmp/gitclone-1'' [] [''push'', ''target'', ''--all'']
         = (None,
            [Run ''/tmp/gitclone-1'' [''push'', ''target'', ''--all''],
             Wait (5 * second),
             Run ''/tmp/gitclone-1'' [''push'', ''target'', ''--all'']])"
    using runGitCommand_retry_policy [OF inject_no_token,
      where w = "scripted_world [NotStarted fork_unavailable, Started None] []" and lib = stub_url and dir = "''/tmp/gitclone-1''" and a = "[''push'', ''target'', ''--all'']" and ?e0.0 = fork_unavailable]
    by (simp add: scripted_Run_result scripted_waits retryable_outcomes)
  have c4: "runGitCommand stub_url (scripted_world [NotStarted fork_unavailable, Started (Some exit_128)] [])
           ''/tmp/gitclone-1'' [] [''push'', ''target'', ''--all'']
         = (Some (OperationError ''git-command'' (Some (Wrapf ''git command failed: '' exit_128 []))),
            [Run ''/tmp/gitclone-1'' [''push'', ''target'', ''--all''],
             Wait (5 * second),
             Run ''/tmp/gitclone-1'' [''push'', ''target'', ''--all'']])"
    using runGitCommand_retry_policy [OF inject_no_token,
      where w = "scripted_world [NotStarted fork_unavailable, Started (Some exit_128)] []" and lib = stub_url and dir = "''/tmp/gitclone-1''" and a = "[''push'', ''target'', ''--all'']" and ?e0.0 = fork_unavailable and ?e1.0 = exit_128]
    by (simp add: scripted_Run_result scripted_waits retryable_outcomes)
  have c5: "runGitCommand stub_url (scripted_world [NotStarted fork_unavailable, NotStarted fork_unavailable] [1])
           ''/tmp/gitclone-1'' [] [''push'', ''target'', ''--all'']
         = (Some (OperationError ''git-command'' (Some (Wrapf ''operation timed out: '' DeadlineExceeded []))),
            [Run ''/tmp/gitclone-1'' [''push'', ''target'', ''--all''],
             Wait (5 * second),
             Run ''/tmp/gitclone-1'' [''push'', ''target'', ''--all'']])"
    using runGitCommand_retry_policy [OF inject_no_token,
      where w = "scripted_world [NotStarted fork_unavailable, NotStarted fork_unavailable] [1]" and lib = stub_url and dir = "''/tmp/gitclone-1''" and a = "[''push'', ''target'', ''--all'']" and ?e0.0 = fork_unavailable and ?e1.0 = fork_unavailable]
    by (simp add: scripted_Run_result scripted_waits retryable_outcomes)
  have c6: "runGitCommand stub_url (scripted_world [NotStarted fork_unavailable, NotStarted fork_unavailable, Started None] [])
           ''/tmp/gitclone-1'' [] [''push'', ''target'', ''--all'']
         = (None,
            [Run ''/tmp/gitclone-1'' [''push'', ''target'', ''--all''],
             Wait (5 * second),
             Run ''/tmp/gitclone-1'' [''push'', ''target'', ''--all''],
             Wait (10 * second),
             Run ''/tmp/gitclone-1'' [''push'', ''target'', ''--all'']])"
    using runGitCommand_retry_policy [OF inject_no_token,
      where w = "scripted_world [NotStarted fork_unavailable, NotStarted fork_unavailable, Started None] []" and lib = stub_url and dir = "''/tmp/gitclone-1''" and a = "[''push'', ''target'', ''--all'']" and ?e0.0 = fork_unavailable and ?e1.0 = fork_unavailable]
    by (simp add: scripted_Run_result scripted_waits retryable_outcomes)
  have c7: "runGitCommand stub_url (scripted_world [NotStarted fork_unavailable, NotStarted fork_unavailable, Started (Some exit_128)] [])
           ''/tmp/gitclone-1'' [] [''push'', ''target'', ''--all'']
         = (Some (OperationError ''git-command'' (Some (Wrapf ''git command failed: '' exit_128 []))),
            [Run ''/tmp/gitclone-1'' [''push'', ''target'', ''--all''],
             Wait (5 * second),
             Run ''/tmp/gitclone-1'' [''push'', ''target'', ''--all''],
             Wait (10 * second),
             Run ''/tmp/gitclone-1'' [''push'', ''target'', ''--all'']])"
    using runGitCommand_retry_policy [OF inject_no_token,
      where w = "scripted_world [NotStarted fork_unavailable, NotStarted fork_unavailable, Started (Some exit_128)] []" and lib = stub_url and dir = "''/tmp/gitclone-1''" and a = "[''push'', ''target'', ''--all'']" and ?e0.0 = fork_unavailable and ?e1.0 = fork_unavailable and ?e2.0 = exit_128]
    by (simp add: scripted_Run_result scripted_waits retryable_outcomes)
  have c8: "runGitCommand stub_url (scripted_world [NotStarted fork_unavailable, NotStarted fork_unavailable, NotStarted fork_unavailable] [2])
           ''/tmp/gitclone-1'' [] [''push'', ''target'', ''--all'']
         = (Some (OperationError ''git-command'' (Some (Wrapf ''operation timed out: '' DeadlineExceeded []))),
            [Run ''/tmp/gitclone-1'' [''push'', ''target'', ''--all''],
             Wait (5 * second),
             Run ''/tmp/gitclone-1'' [''push'', ''target'', ''--all''],
             Wait (10 * second),
             Run ''/tmp/gitclone-1'' [''push'', ''target'', ''--all'']])"
    using runGitCommand_retry_policy [OF inject_no_token,
      where w = "scripted_world [NotStarted fork_unavailable, NotStarted fork_unavailable, NotStarted fork_unavailable] [2]" and lib = stub_url and dir = "''/tmp/gitclone-1''" and a = "[''push'', ''target'', ''--all'']" and ?e0.0 = fork_unavailable and ?e1.0 = fork_unavailable and ?e2.0 = fork_unavailable]
    by (simp add: scripted_Run_result scripted_waits retryable_outcomes)
  have c9: "runGitCommand stub_url (scripted_world [NotStarted fork_unavailable, NotStarted fork_unavailable, NotStarted fork_unavailable] [])
           ''/tmp/gitclone-1'' [] [''push'', ''target'', ''--all'']
         = (Some (OperationError ''git-command'' (Some (Wrapf ''exceeded retry attempts: '' fork_unavailable []))),
            [Run ''/tmp/gitclone-1'' [''push'', ''target'', ''--all''],
             Wait (5 * second),
             Run ''/tmp/gitclone-1'' [''push'', ''target'', ''--all''],
             Wait (10 * second),
             Run ''/tmp/gitclone-1'' [''push'', ''target'', ''--all''],
             Wait (15 * second)])"
    using runGitCommand_retry_policy [OF inject_no_token,
      where w = "scripted_world [NotStarted fork_unavailable, NotStarted fork_unavailable, NotStarted fork_unavailable] []" and lib = stub_url and dir = "''/tmp/gitclone-1''" and a = "[''push'', ''target'', ''--all'']" and ?e0.0 = fork_unavailable and ?e1.0 = fork_unavailable and ?e2.0 = fork_unavailable]
    by (simp add: scripted_Run_result scripted_waits retryable_outcomes)
  show ?thesis
    using c0 c1 c2 c3 c4 c5 c6 c7 c8 c9 by blast
qed

section \<open>Mode selection of CloneRepository\<close>


lemma git_commands_report [simp]:
  "git_commands (report opts (ProgressError e)) = []"
  "git_commands (report opts (ProgressStart s)) = []"
  "git_commands (report opts ProgressComplete) = []"
  by (simp_all add: git_commands_def report_def)

lemma git_commands_append [simp]: "git_commands (xs @ ys) = git_commands xs @ git_commands ys"
  by (simp add: git_commands_def)

lemma git_commands_Cons [simp]:
  "git_commands (Git d t a # xs) = Git d t a # git_commands xs"
  "git_commands (MkdirTemp # xs) = git_commands xs"
  "git_commands (RemoveAll d # xs) = git_commands xs"
  "git_commands [] = []"
  by (simp_all add: git_commands_def)

lemma ssh_source_rejected:
  assumes "strings_HasPrefix (SourceURL opts) ''git@''"
  shows "fst (CloneRepository w opts) \<noteq> None"
    and "git_commands (snd (CloneRepository w opts)) = []"
    and "context_done opts = None \<Longrightarrow>
         fst (CloneRepository w opts)
           = Some (clone_error (ErrorString ''SSH URLs are not supported, please use HTTPS''))"
proof -
  have ne: "SourceURL opts \<noteq> []" using assms by (auto simp: strings_HasPrefix_def)
  show "fst (CloneRepository w opts) \<noteq> None"
    using assms ne
    by (simp add: CloneRepository_def clone_body_def Let_def split: option.splits prod.splits)
  show "git_commands (snd (CloneRepository w opts)) = []"
    using assms ne
    by (auto simp add: CloneRepository_def clone_body_def Let_def split: option.splits prod.splits)
  show "context_done opts = None \<Longrightarrow>
         fst (CloneRepository w opts)
           = Some (clone_error (ErrorString ''SSH URLs are not supported, please use HTTPS''))"
    using assms ne
    by (simp add: CloneRepository_def clone_body_def Let_def split: prod.splits)
qed

lemma working_dir_ignores_target:
  assumes "WorkingDir opts \<noteq> []"
  shows "CloneRepository w (opts\<lparr>TargetURL := t\<rparr>) = CloneRepository w opts"
proof -
  have r: "\<And>e. report (opts\<lparr>TargetURL := t\<rparr>) e = report opts e" by (simp add: report_def)
  have c: "context_done (opts\<lparr>TargetURL := t\<rparr>) = context_done opts"
    by (simp add: context_done_def)
  have "clone_body w (opts\<lparr>TargetURL := t\<rparr>) = clone_body w opts"
    using assms by (simp add: clone_body_def r c Let_def split: option.splits)
  then show ?thesis by (simp add: CloneRepository_def r)
qed

lemma direct_clone:
  assumes "source_accepted w opts" and "WorkingDir opts \<noteq> []"
  shows "CloneRepository w opts =
           (case run_git w 0 [] (AuthToken opts) [''clone'', SourceURL opts, WorkingDir opts] of
              None \<Rightarrow>
                (None,
                 report opts (ProgressStart ''Clone Repository'')
                   @ [Git [] (AuthToken opts) [''clone'', SourceURL opts, WorkingDir opts]]
                   @ report opts ProgressComplete)
            | Some err \<Rightarrow>
                (Some (clone_error (Wrapf ''failed to clone source repository: '' err [])),
                 report opts (ProgressStart ''Clone Repository'')
                   @ [Git [] (AuthToken opts) [''clone'', SourceURL opts, WorkingDir opts]]
                   @ report opts (ProgressError err)
                   @ report opts ProgressComplete))"
  using assms
  by (simp add: source_accepted_def CloneRepository_def clone_body_def Let_def
        split: option.splits)

lemma neither_fails:
  assumes "WorkingDir opts = []" and "TargetURL opts = []"
  shows "fst (CloneRepository w opts) \<noteq> None"
    and "git_commands (snd (CloneRepository w opts)) = []"
    and "source_accepted w opts \<Longrightarrow>
         fst (CloneRepository w opts)
           = Some (clone_error
                (ErrorString ''either working directory or target URL must be specified''))"
  using assms
  by (auto simp add: source_accepted_def CloneRepository_def clone_body_def Let_def
        split: option.splits prod.splits)

lemma mirror_cleans_up:
  assumes "mkdir_temp w = Inr d"
  shows "RemoveAll d \<in> set (snd (mirror_workflow w opts))"
  using assms
  by (simp add: mirror_workflow_def Let_def split: option.splits)

lemma mirror_selected:
  assumes "source_accepted w opts" and "WorkingDir opts = []" and "TargetURL opts \<noteq> []"
  shows "CloneRepository w opts =
           (fst (mirror_workflow w opts),
            report opts (ProgressStart ''Clone Repository'') @ snd (mirror_workflow w opts)
              @ report opts ProgressComplete)"
  using assms
  by (simp add: source_accepted_def CloneRepository_def clone_body_def Let_def
        split: prod.splits)

lemma mirror_success:
  assumes "TargetURL opts \<noteq> []" and "target_accepted w opts" and "mkdir_temp w = Inr d"
    and "run_git w 0 d (AuthToken opts) [''clone'', SourceURL opts, ''.''] = None"
    and "run_git w 1 d (AuthToken opts) [''remote'', ''add'', ''target'', TargetURL opts] = None"
    and "run_git w 2 d (AuthToken opts) [''push'', ''target'', ''--all''] = None"
  shows "mirror_workflow w opts =
           (None,
            [MkdirTemp,
             Git d (AuthToken opts) [''clone'', SourceURL opts, ''.''],
             Git d (AuthToken opts) [''remote'', ''add'', ''target'', TargetURL opts],
             Git d (AuthToken opts) [''push'', ''target'', ''--all''],
             RemoveAll d])"
  using assms
  by (simp add: mirror_workflow_def target_accepted_def Let_def numeral_2_eq_2)


text \<open>
  Claim C7. A source URL that starts with \<open>git@\<close> always fails, runs no git command
  and, unless the context is already done, fails with "SSH URLs are not supported, please
  use HTTPS". With a working directory the target URL is never read: the source, once
  accepted, is cloned straight into the working directory by one git command, and the
  call succeeds exactly when that command does. Without a working directory and without a
  target URL the call fails and runs no git command; for an accepted source the error is
  "either working directory or target URL must be specified". Without a working directory
  and with a target URL the mirror workflow runs: the temporary directory it creates is
  removed on every return, and when the target is accepted and git succeeds the call
  clones into that directory, adds the target as the remote \<open>target\<close> and pushes all
  branches to it.
\<close>

theorem CloneRepository_selects_one_mode:
  "(strings_HasPrefix (SourceURL opts) ''git@'' \<longrightarrow>
      fst (CloneRepository w opts) \<noteq> None
      \<and> git_commands (snd (CloneRepository w opts)) = []
      \<and> (context_done opts = None \<longrightarrow>
           fst (CloneRepository w opts)
             = Some (OperationError ''clone''
                 (Some (ErrorString ''SSH URLs are not supported, please use HTTPS'')))))
   \<and> (WorkingDir opts \<noteq> [] \<longrightarrow>
        CloneRepository w (opts\<lparr>TargetURL := t\<rparr>) = CloneRepository w opts)
   \<and> (source_accepted w opts \<and> WorkingDir opts \<noteq> [] \<longrightarrow>
        git_commands (snd (CloneRepository w opts))
          = [Git [] (AuthToken opts) [''clone'', SourceURL opts, WorkingDir opts]]
        \<and> (fst (CloneRepository w opts) = None) =
            (run_git w 0 [] (AuthToken opts) [''clone'', SourceURL opts, WorkingDir opts] = None))
   \<and> (WorkingDir opts = [] \<and> TargetURL opts = [] \<longrightarrow>
        fst (CloneRepository w opts) \<noteq> None
        \<and> git_commands (snd (CloneRepository w opts)) = []
        \<and> (source_accepted w opts \<longrightarrow>
             fst (CloneRepository w opts)
               = Some (OperationError ''clone''
                   (Some (ErrorString
                      ''either working directory or target URL must be specified'')))))
   \<and> (source_accepted w opts \<and> WorkingDir opts = [] \<and> TargetURL opts \<noteq> []
        \<and> mkdir_temp w = Inr d \<longrightarrow>
        RemoveAll d \<in> set (snd (CloneRepository w opts)))
   \<and> (source_accepted w opts \<and> WorkingDir opts = [] \<and> TargetURL opts \<noteq> []
        \<and> target_accepted w opts \<and> mkdir_temp w = Inr d
        \<and> run_git w 0 d (AuthToken opts) [''clone'', SourceURL opts, ''.''] = None
        \<and> run_git w 1 d (AuthToken opts) [''remote'', ''add'', ''target'', TargetURL opts] = None
        \<and> run_git w 2 d (AuthToken opts) [''push'', ''target'', ''--all''] = None \<longrightarrow>
        CloneRepository w opts =
          (None,
           report opts (ProgressStart ''Clone Repository'')
             @ [MkdirTemp,
                Git d (AuthToken opts) [''clone'', SourceURL opts, ''.''],
                Git d (AuthToken opts) [''remote'', ''add'', ''target'', TargetURL opts],
                Git d (AuthToken opts) [''push'', ''target'', ''--all''],
                RemoveAll d]
             @ report opts ProgressComplete))"
proof -
  have ssh: "strings_HasPrefix (SourceURL opts) ''git@'' \<longrightarrow>
      fst (CloneRepository w opts) \<noteq> None
      \<and> git_commands (snd (CloneRepository w opts)) = []
      \<and> (context_done opts = None \<longrightarrow>
           fst (CloneRepository w opts)
             = Some (OperationError ''clone''
                 (Some (ErrorString ''SSH URLs are not supported, please use HTTPS''))))"
    using ssh_source_rejected [of opts w] by (simp add: clone_error_def)
  have direct: "source_accepted w opts \<and> WorkingDir opts \<noteq> [] \<longrightarrow>
        git_commands (snd (CloneRepository w opts))
          = [Git [] (AuthToken opts) [''clone'', SourceURL opts, WorkingDir opts]]
        \<and> (fst (CloneRepository w opts) = None) =
            (run_git w 0 [] (AuthToken opts) [''clone'', SourceURL opts, WorkingDir opts] = None)"
    using direct_clone [of w opts] by (auto split: option.splits)
  have neither: "WorkingDir opts = [] \<and> TargetURL opts = [] \<longrightarrow>
        fst (CloneRepository w opts) \<noteq> None
        \<and> git_commands (snd (CloneRepository w opts)) = []
        \<and> (source_accepted w opts \<longrightarrow>
             fst (CloneRepository w opts)
               = Some (OperationError ''clone''
                   (Some (ErrorString
                      ''either working directory or target URL must be specified''))))"
    using neither_fails [of opts w] by (simp add: clone_error_def)
  have cleanup: "source_accepted w opts \<and> WorkingDir opts = [] \<and> TargetURL opts \<noteq> []
        \<and> mkdir_temp w = Inr d \<longrightarrow>
        RemoveAll d \<in> set (snd (CloneRepository w opts))"
    using mirror_selected [of w opts] mirror_cleans_up [of w d opts] by simp
  have mirror: "source_accepted w opts \<and> WorkingDir opts = [] \<and> TargetURL opts \<noteq> []
        \<and> target_accepted w opts \<and> mkdir_temp w = Inr d
        \<and> run_git w 0 d (AuthToken opts) [''clone'', SourceURL opts, ''.''] = None
        \<and> run_git w 1 d (AuthToken opts) [''remote'', ''add'', ''target'', TargetURL opts] = None
        \<and> run_git w 2 d (AuthToken opts) [''push'', ''target'', ''--all''] = None \<longrightarrow>
        CloneRepository w opts =
          (None,
           report opts (ProgressStart ''Clone Repository'')
             @ [MkdirTemp,
                Git d (AuthToken opts) [''clone'', SourceURL opts, ''.''],
                Git d (AuthToken opts) [''remote'', ''add'', ''target'', TargetURL opts],
                Git d (AuthToken opts) [''push'', ''target'', ''--all''],
                RemoveAll d]
             @ report opts ProgressComplete)"
    using mirror_selected [of w opts] mirror_success [of opts w d] by simp
  show ?thesis
    using ssh working_dir_ignores_target [of opts w t] direct neither cleanup mirror by blast
qed

lemma test_sources_accepted:
  "source_accepted good_world (test_options\<lparr>WorkingDir := ''testdata''\<rparr>)"
  "source_accepted good_world test_options"
  "source_accepted good_world (test_options\<lparr>TargetURL := ''https://github.com/me/mirror''\<rparr>)"
  "target_accepted good_world (test_options\<lparr>TargetURL := ''https://github.com/me/mirror''\<rparr>)"
  by code_simp+

theorem CloneRepository_selects_one_mode_witness:
  "fst (CloneRepository good_world
          (test_options\<lparr>SourceURL := ''git@github.com:test/repo.git'', WorkingDir := ''testdata''\<rparr>))
     = Some (OperationError ''clone''
               (Some (ErrorString ''SSH URLs are not supported, please use HTTPS'')))
   \<and> CloneRepository good_world
        (test_options\<lparr>WorkingDir := ''testdata'', TargetURL := ''git@github.com:me/mirror.git''\<rparr>)
     = CloneRepository good_world (test_options\<lparr>WorkingDir := ''testdata''\<rparr>)
   \<and> git_commands (snd (CloneRepository good_world (test_options\<lparr>WorkingDir := ''testdata''\<rparr>)))
     = [Git [] ''test-token'' [''clone'', ''https://github.com/test/repo.git'', ''testdata'']]
   \<and> fst (CloneRepository good_world (test_options\<lparr>WorkingDir := ''testdata''\<rparr>)) = None
   \<and> fst (CloneRepository good_world test_options)
     = Some (OperationError ''clone''
               (Some (ErrorString ''either working directory or target URL must be specified'')))
   \<and> CloneRepository good_world (test_options\<lparr>TargetURL := ''https://github.com/me/mirror''\<rparr>)
     = (None,
        [MkdirTemp,
         Git ''/tmp/gitclone-1'' ''test-token'' [''clone'', ''https://github.com/test/repo.git'', ''.''],
         Git ''/tmp/gitclone-1'' ''test-token''
           [''remote'', ''add'', ''target'', ''https://github.com/me/mirror''],
         Git ''/tmp/gitclone-1'' ''test-token'' [''push'', ''target'', ''--all''],
         RemoveAll ''/tmp/gitclone-1''])
   \<and> RemoveAll ''/tmp/gitclone-1''
       \<in> set (snd (CloneRepository good_world
                     (test_options\<lparr>TargetURL := ''https://github.com/me/mirror''\<rparr>)))"
proof -
  have ssh: "strings_HasPrefix
               (SourceURL (test_options\<lparr>SourceURL := ''git@github.com:test/repo.git'',
                                         WorkingDir := ''testdata''\<rparr>)) ''git@''"
    by (simp add: strings_HasPrefix_def)
  have live: "context_done (test_options\<lparr>SourceURL := ''git@github.com:test/repo.git'',
                                         WorkingDir := ''testdata''\<rparr>) = None"
    by (simp add: context_done_def test_options_def)
  have fields:
    "WorkingDir (test_options\<lparr>WorkingDir := ''testdata''\<rparr>) \<noteq> []"
    "WorkingDir test_options = []" "TargetURL test_options = []"
    "AuthToken test_options = ''test-token''"
    "SourceURL test_options = ''https://github.com/test/repo.git''"
    "HasProgress test_options = False"
    "mkdir_temp good_world = Inr ''/tmp/gitclone-1''"
    "\<And>n d t a. run_git good_world n d t a = None"
    by (simp_all add: test_options_def good_world_def)
  show ?thesis
    using ssh live test_sources_accepted
      CloneRepository_selects_one_mode [where w = good_world
        and opts = "test_options\<lparr>SourceURL := ''git@github.com:test/repo.git'',
                                 WorkingDir := ''testdata''\<rparr>"]
      CloneRepository_selects_one_mode [where w = good_world
        and opts = "test_options\<lparr>WorkingDir := ''testdata''\<rparr>"
        and t = "''git@github.com:me/mirror.git''"]
      CloneRepository_selects_one_mode [where w = good_world and opts = test_options]
      CloneRepository_selects_one_mode [where w = good_world
        and opts = "test_options\<lparr>TargetURL := ''https://github.com/me/mirror''\<rparr>"
        and d = "''/tmp/gitclone-1''"]
    by (simp add: fields report_def)
qed

end
